theory Spec2Isabelle
  imports Main "HOL-Library.Multiset"
begin

section \<open>Strings\<close>

text \<open>
  A JavaScript string is modelled as a \<^typ>\<open>string\<close> (a list of 8-bit characters), so
  the model covers the strings whose case mapping is the ASCII one:
  \<open>toLowerCase\<close> maps \<open>A\<close>..\<open>Z\<close> to \<open>a\<close>..\<open>z\<close> and leaves every other character.
  \<open>includes_str s t\<close> is \<open>s.includes(t)\<close>: \<open>t\<close> occurs in \<open>s\<close> as a contiguous run.
\<close>

definition toLowerChar :: "char \<Rightarrow> char" where
  "toLowerChar c =
     (let n = (of_char c :: nat) in if 65 \<le> n \<and> n \<le> 90 then char_of (n + 32) else c)"

definition toLowerCase :: "string \<Rightarrow> string" where
  "toLowerCase s = map toLowerChar s"

definition startsWith :: "string \<Rightarrow> string \<Rightarrow> bool" where
  "startsWith s t = (take (length t) s = t)"

fun includes_str :: "string \<Rightarrow> string \<Rightarrow> bool" where
  "includes_str [] t = (t = [])"
| "includes_str (c # s) t = (startsWith (c # s) t \<or> includes_str s t)"

section \<open>Data model (types.ts)\<close>

datatype Severity = Critical | High | Medium | Low | Info

text \<open>The string each member of the union type \<open>Severity\<close> is at run time.\<close>

fun severity_string :: "Severity \<Rightarrow> string" where
  "severity_string Critical = ''critical''"
| "severity_string High = ''high''"
| "severity_string Medium = ''medium''"
| "severity_string Low = ''low''"
| "severity_string Info = ''info''"

datatype ProjectStatus = Pending | Queued | Running | Completed | Failed | Skipped

datatype Framework = Foundry | Hardhat | Brownie | UnknownFramework

text \<open>
  \<open>C4Project\<close>. The optional fields that only the indexer reads (\<open>findingsFile\<close>,
  \<open>findingsFiles\<close>, \<open>scopeFile\<close>, \<open>notes\<close> as \<open>project_notes\<close>, \<open>lastRun\<close>) are kept as declared.
\<close>

record C4Project =
  name :: string
  repo :: string
  status :: ProjectStatus
  priority :: int
  findingsFile :: "string option"
  findingsFiles :: "string list option"
  scopeFile :: "string option"
  framework :: Framework
  project_notes :: "string option"
  lastRun :: "string option"

record AnalysisMetadata =
  process :: "string list option"
  tools :: "string list option"
  methods :: "string list option"
  methodology :: "string option"
  duration :: "nat option"
  severityReasoning :: "string option"

datatype FindingSource = GroundTruth | DDAudit

text \<open>
  \<open>Finding\<close>. The fields \<open>id\<close>, \<open>file\<close> and \<open>function\<close> are \<open>finding_id\<close>, \<open>file_path\<close> and \<open>func\<close> here
  (\<open>id\<close> is the identity of HOL, the other two are keywords). An optional field is an
  \<open>option\<close>: \<open>None\<close> is \<open>undefined\<close>.
\<close>

record Finding =
  finding_id :: string
  title :: string
  severity :: Severity
  description :: string
  category :: "string option"
  file_path :: "string option"
  func :: "string option"
  lines :: "nat list option"
  targets :: "string list"
  rootCause :: "string option"
  impact :: "string option"
  recommendation :: "string option"
  source :: FindingSource
  detector :: "string option"
  confidence :: "string option"
  raw :: "string option"
  markdown :: "string option"
  analysis :: "AnalysisMetadata option"

text \<open>
  \<open>RunResult\<close> and its three nested objects. \<open>by_severity\<close> is a
  \<open>Record<string, number>\<close> whose keys are values of \<open>Finding.severity\<close>: a map from
  \<^typ>\<open>Severity\<close>, where a key that was never written is \<open>None\<close>.
\<close>

record GroundTruthPart =
  gt_total :: nat
  by_severity :: "Severity \<rightharpoonup> nat"
  gt_findings :: "Finding list"

record DDFindingsPart =
  dd_total :: nat
  dd_found :: "Finding list"

record RunMetadata =
  dd_version :: string
  benchmark_version :: string
  tools_used :: "string list"
  methods_used :: "string list"
  audit_session_id :: "string option"

record RunResult =
  project :: string
  timestamp :: string
  duration_seconds :: nat
  ground_truth :: GroundTruthPart
  dd_findings :: DDFindingsPart
  metadata :: RunMetadata
  run_error :: "string option"

record Checkpoint =
  currentProject :: "string option"
  completedProjects :: "string list"
  failedProjects :: "string list"
  lastCheckpoint :: string

datatype BenchmarkEvent =
    ProjectStarted string string
  | AuditCompleted string nat nat
  | ProjectCompleted string
  | CheckpointSaved Checkpoint
  | ErrorEvent string "string option"

section \<open>AuditRunner.normalizeSeverity\<close>

text \<open>
  The argument has type \<open>string | undefined\<close>: \<open>None\<close> is \<open>undefined\<close>.
  \<open>!severity\<close> holds for \<open>undefined\<close> and for the empty string.
\<close>

definition normalizeSeverity :: "string option \<Rightarrow> Severity" where
  "normalizeSeverity sev =
     (case sev of
        None \<Rightarrow> Medium
      | Some s \<Rightarrow>
          if s = [] then Medium
          else let lower = toLowerCase s in
            if includes_str lower ''crit'' then Critical
            else if includes_str lower ''high'' then High
            else if includes_str lower ''med'' then Medium
            else if includes_str lower ''low'' then Low
            else Info)"

section \<open>BenchmarkRunner.buildRunResult\<close>

text \<open>
  The first loop of \<open>buildRunResult\<close>:
  \<open>bySeverity[f.severity] = (bySeverity[f.severity] || 0) + 1\<close> for each finding in order.
\<close>

fun countBySeverity :: "Finding list \<Rightarrow> (Severity \<rightharpoonup> nat) \<Rightarrow> (Severity \<rightharpoonup> nat)" where
  "countBySeverity [] bySeverity = bySeverity"
| "countBySeverity (f # fs) bySeverity =
     countBySeverity fs
       (bySeverity(severity f \<mapsto> (case bySeverity (severity f) of None \<Rightarrow> 0 | Some n \<Rightarrow> n) + 1))"

text \<open>
  A JavaScript \<open>Set\<close> of strings keeps its members in insertion order; \<open>Array.from\<close>
  lists them in that order. \<open>set_add\<close> is \<open>Set.prototype.add\<close> on that list.
\<close>

definition set_add :: "string \<Rightarrow> string list \<Rightarrow> string list" where
  "set_add x xs = (if x \<in> set xs then xs else xs @ [x])"

fun set_add_all :: "string list \<Rightarrow> string list \<Rightarrow> string list" where
  "set_add_all [] xs = xs"
| "set_add_all (y # ys) xs = set_add_all ys (set_add y xs)"

text \<open>
  The second loop: for each DD finding, a truthy \<open>detector\<close> (present and not empty) and
  the \<open>analysis.tools\<close> go to \<open>toolsUsed\<close>, the \<open>analysis.methods\<close> to \<open>methodsUsed\<close>.
\<close>

definition addTools :: "Finding \<Rightarrow> string list \<Rightarrow> string list" where
  "addTools f toolsUsed =
     (let t1 = (case detector f of
                  None \<Rightarrow> toolsUsed
                | Some d \<Rightarrow> if d = [] then toolsUsed else set_add d toolsUsed)
      in case analysis f of
           None \<Rightarrow> t1
         | Some a \<Rightarrow> (case tools a of None \<Rightarrow> t1 | Some ts \<Rightarrow> set_add_all ts t1))"

definition addMethods :: "Finding \<Rightarrow> string list \<Rightarrow> string list" where
  "addMethods f methodsUsed =
     (case analysis f of
        None \<Rightarrow> methodsUsed
      | Some a \<Rightarrow> (case methods a of None \<Rightarrow> methodsUsed | Some ms \<Rightarrow> set_add_all ms methodsUsed))"

fun collectUsed :: "Finding list \<Rightarrow> string list \<times> string list \<Rightarrow> string list \<times> string list" where
  "collectUsed [] acc = acc"
| "collectUsed (f # fs) (toolsUsed, methodsUsed) =
     collectUsed fs (addTools f toolsUsed, addMethods f methodsUsed)"

text \<open>
  \<open>buildRunResult\<close> reads the clock (\<open>new Date().toISOString()\<close>) and the environment
  variable \<open>DD_VERSION\<close>; both are arguments here: \<open>now\<close> and \<open>env_dd_version\<close>.
\<close>

definition buildRunResult ::
  "string \<Rightarrow> string option \<Rightarrow> C4Project \<Rightarrow> Finding list \<Rightarrow> Finding list \<Rightarrow> nat \<Rightarrow> RunResult" where
  "buildRunResult now env_dd_version proj groundTruth ddFindings dur =
     (let bySeverity = countBySeverity groundTruth Map.empty;
          used = collectUsed ddFindings ([], [])
      in \<lparr> project = name proj,
           timestamp = now,
           duration_seconds = dur,
           ground_truth = \<lparr> gt_total = length groundTruth,
                            by_severity = bySeverity,
                            gt_findings = groundTruth \<rparr>,
           dd_findings = \<lparr> dd_total = length ddFindings, dd_found = ddFindings \<rparr>,
           metadata = \<lparr> dd_version = (case env_dd_version of
                                          None \<Rightarrow> ''1.0.0''
                                        | Some v \<Rightarrow> if v = [] then ''1.0.0'' else v),
                        benchmark_version = ''2.0.0'',
                        tools_used = fst used,
                        methods_used = snd used,
                        audit_session_id = None \<rparr>,
           run_error = None \<rparr>)"

section \<open>BenchmarkScheduler\<close>

text \<open>
  The scheduler object. \<open>checkpoint\<close>, \<open>isRunning\<close> and \<open>shouldStop\<close> are its fields.
  Its effects are recorded beside them: \<open>emitted\<close> lists the events handed to \<open>emit\<close>
  (each handler is called with them in this order, and a handler that throws is caught
  inside \<open>emit\<close>), \<open>audited\<close> lists the projects \<open>runAudit\<close> was invoked for, and
  \<open>checkpointFile\<close> is the content of \<open>checkpoint.json\<close> (\<open>None\<close>: not written yet).
  Writing the file is taken to succeed. The fields \<open>settings\<close> and \<open>dataDir\<close> decide
  nothing in the loop (\<open>dataDir\<close> only names the directory of the file) and are left out.
\<close>

record Scheduler =
  checkpoint :: Checkpoint
  isRunning :: bool
  shouldStop :: bool
  emitted :: "BenchmarkEvent list"
  audited :: "C4Project list"
  checkpointFile :: "Checkpoint option"

text \<open>
  What the scheduler does not own, over a state \<open>'w\<close> of the world outside it:
  \<^item> \<open>runAudit\<close> is the protected method subclasses override; it returns the
    \<open>RunResult\<close> (\<open>Inr\<close>) or throws (\<open>Inl\<close>, with the message the error event carries) and
    leaves the world changed;
  \<^item> \<open>clock\<close> is \<open>new Date().toISOString()\<close>;
  \<^item> \<open>stopRequested p w\<close> tells whether \<open>stop()\<close> is called (by the signal handler of
    \<open>setupSignalHandlers\<close>, or by an event handler) while the loop body of \<open>p\<close> is
    suspended at one of its \<open>await\<close>s, \<open>w\<close> being the world after the audit. The loop
    reads the flag only at the top of an iteration, and no handler runs between the
    iterations of skipped projects, which do not suspend.
\<close>

record 'w SchedulerEnv =
  runAudit :: "C4Project \<Rightarrow> 'w \<Rightarrow> (string + RunResult) \<times> 'w"
  clock :: "'w \<Rightarrow> string"
  stopRequested :: "C4Project \<Rightarrow> 'w \<Rightarrow> bool"

definition createInitialCheckpoint :: "string \<Rightarrow> Checkpoint" where
  "createInitialCheckpoint now =
     \<lparr> currentProject = None, completedProjects = [], failedProjects = [],
       lastCheckpoint = now \<rparr>"

text \<open>The constructor.\<close>

definition newScheduler :: "string \<Rightarrow> Scheduler" where
  "newScheduler now =
     \<lparr> checkpoint = createInitialCheckpoint now, isRunning = False, shouldStop = False,
       emitted = [], audited = [], checkpointFile = None \<rparr>"

definition emit :: "BenchmarkEvent \<Rightarrow> Scheduler \<Rightarrow> Scheduler" where
  "emit event s = s\<lparr>emitted := emitted s @ [event]\<rparr>"

definition stop :: "Scheduler \<Rightarrow> Scheduler" where
  "stop s = s\<lparr>shouldStop := True\<rparr>"

definition saveCheckpoint :: "string \<Rightarrow> Scheduler \<Rightarrow> Scheduler" where
  "saveCheckpoint now s =
     (let cp = (checkpoint s)\<lparr>lastCheckpoint := now\<rparr>
      in emit (CheckpointSaved cp) (s\<lparr>checkpoint := cp, checkpointFile := Some cp\<rparr>))"

text \<open>
  The base class's \<open>runAudit\<close>: a placeholder result, never an error.
\<close>

definition placeholderResult :: "string \<Rightarrow> C4Project \<Rightarrow> RunResult" where
  "placeholderResult now p =
     \<lparr> project = name p, timestamp = now, duration_seconds = 1,
       ground_truth = \<lparr> gt_total = 0, by_severity = Map.empty, gt_findings = [] \<rparr>,
       dd_findings = \<lparr> dd_total = 0, dd_found = [] \<rparr>,
       metadata = \<lparr> dd_version = ''1.0.0'', benchmark_version = ''2.0.0'',
                    tools_used = [], methods_used = [], audit_session_id = None \<rparr>,
       run_error = None \<rparr>"

text \<open>
  The body of the loop of \<open>runBenchmark\<close> for a project that is not skipped: from
  \<open>this.checkpoint.currentProject = project.name\<close> to \<open>saveCheckpoint()\<close>. The
  \<open>try\<close> block is the \<open>Inr\<close> branch, the \<open>catch\<close> block the \<open>Inl\<close> branch.
\<close>

definition runProject :: "'w SchedulerEnv \<Rightarrow> C4Project \<Rightarrow> Scheduler \<times> 'w \<Rightarrow> Scheduler \<times> 'w" where
  "runProject env p sw =
     (let s = fst sw; w = snd sw;
          s1 = s\<lparr>checkpoint := (checkpoint s)\<lparr>currentProject := Some (name p)\<rparr>\<rparr>;
          s2 = emit (ProjectStarted (name p) (clock env w)) s1;
          s3 = s2\<lparr>audited := audited s2 @ [p]\<rparr>;
          res = runAudit env p w;
          w' = snd res;
          s4 = (case fst res of
                  Inr result \<Rightarrow>
                    (let a = emit (AuditCompleted (name p) (dd_total (dd_findings result))
                                     (gt_total (ground_truth result))) s3;
                         b = emit (ProjectCompleted (name p)) a
                     in b\<lparr>checkpoint := (checkpoint b)
                            \<lparr>completedProjects := completedProjects (checkpoint b) @ [name p]\<rparr>\<rparr>)
                | Inl message \<Rightarrow>
                    (let a = s3\<lparr>checkpoint := (checkpoint s3)
                               \<lparr>failedProjects := failedProjects (checkpoint s3) @ [name p]\<rparr>\<rparr>
                     in emit (ErrorEvent message (Some (name p))) a));
          s5 = s4\<lparr>checkpoint := (checkpoint s4)\<lparr>currentProject := None\<rparr>\<rparr>;
          s6 = saveCheckpoint (clock env w') s5;
          s7 = (if stopRequested env p w' then stop s6 else s6)
      in (s7, w'))"

text \<open>
  \<open>runBenchmark\<close>: the \<open>for\<close> loop over the projects. \<open>break\<close> when \<open>shouldStop\<close> is
  set, \<open>continue\<close> for a project whose name is in \<open>completedProjects\<close>.
\<close>

fun runBenchmark :: "'w SchedulerEnv \<Rightarrow> C4Project list \<Rightarrow> Scheduler \<times> 'w \<Rightarrow> Scheduler \<times> 'w" where
  "runBenchmark env [] sw = sw"
| "runBenchmark env (p # ps) sw =
     (if shouldStop (fst sw) then sw
      else if name p \<in> set (completedProjects (checkpoint (fst sw)))
           then runBenchmark env ps sw
      else runBenchmark env ps (runProject env p sw))"

text \<open>
  \<open>start\<close>: throws when a run is in progress; otherwise clears \<open>shouldStop\<close>, runs the
  loop and resets \<open>isRunning\<close> in its \<open>finally\<close>.
\<close>

definition start :: "'w SchedulerEnv \<Rightarrow> C4Project list \<Rightarrow> Scheduler \<times> 'w \<Rightarrow> string + Scheduler \<times> 'w" where
  "start env projects sw =
     (if isRunning (fst sw) then Inl ''Benchmark is already running''
      else let r = runBenchmark env projects ((fst sw)\<lparr>isRunning := True, shouldStop := False\<rparr>, snd sw)
           in Inr ((fst r)\<lparr>isRunning := False\<rparr>, snd r))"

section \<open>AuditRunner: the remote backend\<close>

text \<open>
  What \<open>await fetch(...)\<close> gives: the promise rejects (\<open>Rejected\<close> with the error's
  message: a network failure, or the \<open>AbortSignal.timeout\<close> of the call), or it resolves
  to a response that is not \<open>ok\<close> (\<open>HttpError status statusText body\<close>), or to an \<open>ok\<close>
  response whose JSON body has the declared type (\<open>HttpOk\<close>).
\<close>

datatype 'a Response = Rejected string | HttpError nat string string | HttpOk 'a

record ContentPart =
  part_type :: string
  part_text :: "string option"

record Message =
  role :: string
  content :: "ContentPart list"

record SessionData =
  session_status :: string
  runningId :: "string option"

record ContainerInfo =
  containerId :: string
  wasCreated :: bool
  wasRestarted :: bool

text \<open>
  An element of the body of \<open>GET /projects/{id}/findings\<close>: its \<open>meta\<close> object and its
  \<open>content\<close> (named \<open>remote_content\<close> here). The fields \<open>getFindingsFromProject\<close> guards
  with \<open>||\<close> or \<open>?:\<close> are optional.
\<close>

record FindingMeta =
  meta_id :: "string option"
  meta_title :: "string option"
  meta_severity :: "string option"
  meta_file :: "string option"
  meta_function :: "string option"
  meta_category :: "string option"
  meta_detector :: "string option"
  meta_confidence :: "string option"
  meta_analysis :: "AnalysisMetadata option"

record RemoteFinding =
  meta :: FindingMeta
  remote_content :: "string option"

text \<open>
  The backend as one audit sees it. The responses to the four calls before the wait, to
  the message fetch after it and to the finding retrieval; and for the \<open>k\<close>-th iteration
  of the polling loop (\<open>pollCount = k\<close>) the responses to its status check and to its
  message check, with the milliseconds each of the two requests takes.
\<close>

record PollScript =
  status_response :: "SessionData Response"
  status_ms :: nat
  messages_response :: "Message list Response"
  messages_ms :: nat

record Backend =
  createProject_response :: "string Response"
  ensureContainer_response :: "ContainerInfo Response"
  createSession_response :: "string Response"
  chatStream_response :: "string Response"
  polls :: "nat \<Rightarrow> PollScript"
  finalMessages_response :: "Message list Response"
  findings_response :: "RemoteFinding list Response"

record DDApiConfig =
  baseUrl :: string
  timeout :: nat

record AuditRunner =
  config :: DDApiConfig
  outputDir :: string
  lastSessionLogs :: "Message list"

text \<open>
  A number in a template literal (\<open>${response.status}\<close>): its decimal digits, the most
  significant first.
\<close>

definition digit :: "nat \<Rightarrow> char" where
  "digit d = char_of (d + 48)"

fun decimal :: "nat \<Rightarrow> string" where
  "decimal n = (if 10 \<le> n then decimal (n div 10) @ [digit (n mod 10)] else [digit n])"

declare decimal.simps [simp del]

section \<open>AuditRunner.sendMessage: the polling loop\<close>

text \<open>The console calls of the loop, one constructor for each.\<close>

datatype ConsoleLine =
    StatusCheckFailed
  | SessionStatus string string
  | AgentNeedsMoreInfo
  | SessionCompleted nat
  | WaitingForAnalysis nat
  | NoResponseYet
  | SessionAppearsComplete

text \<open>
  \<open>lastMsg.content?.map(c => c.text || '').join('') || ''\<close>, and the two tests on it.
\<close>

definition messageText :: "Message \<Rightarrow> string" where
  "messageText m = concat (map (\<lambda>c. case part_text c of None \<Rightarrow> [] | Some t \<Rightarrow> t) (content m))"

definition needsMoreInfo :: "string \<Rightarrow> bool" where
  "needsMoreInfo msgText =
     (includes_str msgText ''repository URL'' \<or> includes_str msgText ''no repository''
      \<or> includes_str msgText ''Could you please provide'')"

definition analysisPerformed :: "string \<Rightarrow> bool" where
  "analysisPerformed msgText =
     (includes_str (toLowerCase msgText) ''slither'' \<or> includes_str (toLowerCase msgText) ''aderyn''
      \<or> includes_str (toLowerCase msgText) ''vulnerabilit''
      \<or> includes_str (toLowerCase msgText) ''finding'')"

text \<open>
  How one iteration of the \<open>while\<close> loop ends: \<open>Wait ms\<close> is
  \<open>await new Promise(resolve => setTimeout(resolve, ms))\<close> followed by the next iteration
  (a \<open>continue\<close>, or the end of the body), \<open>Done\<close> is \<open>break\<close>, \<open>Throw\<close> is a rejected
  \<open>fetch\<close>, which nothing in \<open>sendMessage\<close> catches.
\<close>

datatype PollStep = Wait nat | Done | Throw string

record PollOutcome =
  step :: PollStep
  spent_ms :: nat
  newStatus :: string
  printed :: "ConsoleLine list"

text \<open>
  The end of the idle branch, reached when the message check failed or showed no
  assistant message.
\<close>

definition idleWithoutReply :: "nat \<Rightarrow> PollStep \<times> ConsoleLine list" where
  "idleWithoutReply pollCount =
     (if pollCount < 6 then (Wait 15000, [NoResponseYet]) else (Done, [SessionAppearsComplete]))"

text \<open>
  The body of the loop after \<open>pollCount++\<close>; \<open>pollCount\<close> is the incremented counter.
  \<open>spent_ms\<close> is the time the requests of the iteration took.
\<close>

definition pollOnce :: "PollScript \<Rightarrow> nat \<Rightarrow> string \<Rightarrow> PollOutcome" where
  "pollOnce ps pollCount lastStatus =
     (case status_response ps of
        Rejected e \<Rightarrow>
          \<lparr> step = Throw e, spent_ms = status_ms ps, newStatus = lastStatus, printed = [] \<rparr>
      | HttpError c st b \<Rightarrow>
          \<lparr> step = Wait 5000, spent_ms = status_ms ps, newStatus = lastStatus,
            printed = [StatusCheckFailed] \<rparr>
      | HttpOk sessionData \<Rightarrow>
          (let shown = (case runningId sessionData of
                          None \<Rightarrow> ''none''
                        | Some i \<Rightarrow> if i = [] then ''none'' else i);
               currentStatus = session_status sessionData @ '':'' @ shown;
               changed = (if currentStatus \<noteq> lastStatus
                          then [SessionStatus (session_status sessionData) shown] else [])
           in if session_status sessionData = ''idle'' \<and> runningId sessionData = None then
                (case messages_response ps of
                   Rejected e \<Rightarrow>
                     \<lparr> step = Throw e, spent_ms = status_ms ps + messages_ms ps,
                       newStatus = currentStatus, printed = changed \<rparr>
                 | HttpError c st b \<Rightarrow>
                     \<lparr> step = fst (idleWithoutReply pollCount),
                       spent_ms = status_ms ps + messages_ms ps,
                       newStatus = currentStatus,
                       printed = changed @ snd (idleWithoutReply pollCount) \<rparr>
                 | HttpOk messages \<Rightarrow>
                     (let assistantMsgs = filter (\<lambda>m. role m = ''assistant'') messages in
                      if assistantMsgs \<noteq> [] then
                        (let msgText = messageText (last assistantMsgs) in
                         if pollCount < 6 \<and> needsMoreInfo msgText then
                           \<lparr> step = Wait 15000, spent_ms = status_ms ps + messages_ms ps,
                             newStatus = currentStatus, printed = changed @ [AgentNeedsMoreInfo] \<rparr>
                         else if analysisPerformed msgText \<or> 12 \<le> pollCount then
                           \<lparr> step = Done, spent_ms = status_ms ps + messages_ms ps,
                             newStatus = currentStatus,
                             printed = changed @ [SessionCompleted (length assistantMsgs)] \<rparr>
                         else
                           \<lparr> step = Wait 15000, spent_ms = status_ms ps + messages_ms ps,
                             newStatus = currentStatus,
                             printed = changed @ [WaitingForAnalysis pollCount] \<rparr>)
                      else
                        \<lparr> step = fst (idleWithoutReply pollCount),
                          spent_ms = status_ms ps + messages_ms ps,
                          newStatus = currentStatus,
                          printed = changed @ snd (idleWithoutReply pollCount) \<rparr>))
              else
                \<lparr> step = Wait 10000, spent_ms = status_ms ps, newStatus = currentStatus,
                  printed = changed \<rparr>))"

lemma pollOnce_wait_positive:
  "step (pollOnce ps pollCount lastStatus) = Wait ms \<Longrightarrow> 5000 \<le> ms"
  by (auto simp: pollOnce_def idleWithoutReply_def Let_def split: Response.splits if_splits)

text \<open>
  The \<open>while (Date.now() - startTime < timeout)\<close> loop. \<open>elapsed\<close> is
  \<open>Date.now() - startTime\<close> in milliseconds at the loop test: the clock advances by the
  time the requests take and by the waits. The result tells how the loop ended, the
  elapsed time and the poll count at that moment, and what was printed.
\<close>

datatype PollEnding = Broke | TimedOut | Threw string

record PollResult =
  ending :: PollEnding
  elapsed_ms :: nat
  polls_made :: nat
  console :: "ConsoleLine list"

function pollLoop ::
  "(nat \<Rightarrow> PollScript) \<Rightarrow> nat \<Rightarrow> nat \<Rightarrow> nat \<Rightarrow> string \<Rightarrow> ConsoleLine list \<Rightarrow> PollResult" where
  "pollLoop script limit elapsed pollCount lastStatus out =
     (if elapsed < limit then
        (let r = pollOnce (script (Suc pollCount)) (Suc pollCount) lastStatus in
         case step r of
           Wait ms \<Rightarrow>
             pollLoop script limit (elapsed + spent_ms r + ms) (Suc pollCount) (newStatus r)
               (out @ printed r)
         | Done \<Rightarrow>
             \<lparr> ending = Broke, elapsed_ms = elapsed + spent_ms r, polls_made = Suc pollCount,
               console = out @ printed r \<rparr>
         | Throw e \<Rightarrow>
             \<lparr> ending = Threw e, elapsed_ms = elapsed + spent_ms r, polls_made = Suc pollCount,
               console = out @ printed r \<rparr>)
      else \<lparr> ending = TimedOut, elapsed_ms = elapsed, polls_made = pollCount, console = out \<rparr>)"
  by pat_completeness auto
termination
proof (relation "measure (\<lambda>(script, limit, elapsed, pollCount, lastStatus, out). limit - elapsed)")
  show "wf (measure (\<lambda>(script, limit, elapsed, pollCount, lastStatus, out). limit - elapsed))"
    by simp
next
  fix script :: "nat \<Rightarrow> PollScript" and limit elapsed pollCount :: nat
    and lastStatus :: string and out :: "ConsoleLine list" and r ms
  assume "elapsed < limit"
    and "r = pollOnce (script (Suc pollCount)) (Suc pollCount) lastStatus"
    and "step r = Wait ms"
  then have "5000 \<le> ms"
    using pollOnce_wait_positive by blast
  then show "((script, limit, elapsed + spent_ms r + ms, Suc pollCount, newStatus r, out @ printed r),
              (script, limit, elapsed, pollCount, lastStatus, out))
             \<in> measure (\<lambda>(script, limit, elapsed, pollCount, lastStatus, out). limit - elapsed)"
    using \<open>elapsed < limit\<close> by simp
qed

declare pollLoop.simps [simp del]

text \<open>
  The wait of \<open>sendMessage\<close>: \<open>startTime\<close> is taken, ten seconds pass before the
  first loop test, \<open>pollCount = 0\<close> and \<open>lastStatus = ''\<close>.
\<close>

definition waitForCompletion :: "Backend \<Rightarrow> nat \<Rightarrow> PollResult" where
  "waitForCompletion b limit = pollLoop (polls b) limit 10000 0 [] []"

text \<open>
  The text \<open>sendMessage\<close> returns: the \<open>text\<close> parts of the last assistant message,
  those whose \<open>text\<close> is present and not empty, concatenated.
\<close>

definition fullResponse :: "Message list \<Rightarrow> string" where
  "fullResponse messages =
     (case filter (\<lambda>m. role m = ''assistant'') messages of
        [] \<Rightarrow> []
      | a # as \<Rightarrow>
          concat (map (\<lambda>part. if part_type part = ''text''
                              then (case part_text part of None \<Rightarrow> [] | Some t \<Rightarrow> t)
                              else [])
                      (content (last (a # as)))))"

definition sendMessage :: "Backend \<Rightarrow> AuditRunner \<Rightarrow> (string + string) \<times> AuditRunner" where
  "sendMessage b r =
     (case chatStream_response b of
        Rejected e \<Rightarrow> (Inl e, r)
      | HttpError c st errorText \<Rightarrow>
          (Inl (''Failed to start chat: '' @ decimal c @ '' '' @ errorText), r)
      | HttpOk startData \<Rightarrow>
          (case ending (waitForCompletion b (timeout (config r))) of
             Threw e \<Rightarrow> (Inl e, r)
           | _ \<Rightarrow>
               (case finalMessages_response b of
                  Rejected e \<Rightarrow> (Inl e, r)
                | HttpError c st errorText \<Rightarrow> (Inl ''Failed to get messages'', r)
                | HttpOk messages \<Rightarrow>
                    (Inr (fullResponse messages), r\<lparr>lastSessionLogs := messages\<rparr>))))"

section \<open>AuditRunner.getFindingsFromProject\<close>

text \<open>\<open>x || d\<close> on an optional string: \<open>d\<close> when \<open>x\<close> is absent or empty.\<close>

definition orDefault :: "string option \<Rightarrow> string \<Rightarrow> string" where
  "orDefault x d = (case x of None \<Rightarrow> d | Some s \<Rightarrow> if s = [] then d else s)"

text \<open>The function mapped over the response body.\<close>

definition toFinding :: "RemoteFinding \<Rightarrow> Finding" where
  "toFinding f =
     \<lparr> finding_id = orDefault (meta_id (meta f)) ''unknown'',
       title = orDefault (meta_title (meta f)) ''Untitled'',
       severity = normalizeSeverity (meta_severity (meta f)),
       description = orDefault (remote_content f) [],
       category = meta_category (meta f),
       file_path = meta_file (meta f),
       func = meta_function (meta f),
       lines = None,
       targets = (case meta_file (meta f) of
                    None \<Rightarrow> []
                  | Some p \<Rightarrow> if p = [] then [] else [p]),
       rootCause = None, impact = None, recommendation = None,
       source = DDAudit,
       detector = meta_detector (meta f),
       confidence = meta_confidence (meta f),
       raw = None, markdown = None,
       analysis = meta_analysis (meta f) \<rparr>"

text \<open>
  The whole body of \<open>getFindingsFromProject\<close> is a \<open>try\<close> whose \<open>catch\<close> returns the empty
  list, and a response that is not \<open>ok\<close> returns the empty list too: it never throws.
\<close>

definition getFindingsFromProject :: "Backend \<Rightarrow> Finding list" where
  "getFindingsFromProject b =
     (case findings_response b of
        Rejected e \<Rightarrow> []
      | HttpError c st errorText \<Rightarrow> []
      | HttpOk data \<Rightarrow> map toFinding data)"

section \<open>The world of a benchmark run\<close>

text \<open>
  A written file: the components of its path and what was serialized into it. Writing
  is taken to succeed. \<open>fileStamp\<close> is \<open>.replace(/[:.]/g, '-')\<close> on a timestamp.
\<close>

datatype FileContent = FindingsJson "Finding list" | RunResultJson RunResult

definition fileStamp :: "string \<Rightarrow> string" where
  "fileStamp ts = map (\<lambda>c. if c = CHR '':'' \<or> c = CHR ''.'' then CHR ''-'' else c) ts"

text \<open>
  What is outside the runner:
  \<^item> \<open>backends n p\<close>: the backend as the audit of \<open>p\<close> sees it when \<open>n\<close> audits were started
    before (\<open>audits_started\<close> counts them);
  \<^item> \<open>groundTruths\<close>: \<open>C4Indexer.getGroundTruth\<close>, which returns the findings or throws;
  \<^item> \<open>isoNow\<close>: \<open>new Date().toISOString()\<close>; \<open>seconds_taken\<close>: the rounded seconds
    \<open>BenchmarkRunner.runAudit\<close> measures; \<open>env_DD_VERSION\<close>: the environment variable;
  \<^item> \<open>files\<close>: the files written so far, in order;
  \<^item> \<open>stopSignal p\<close>: whether SIGINT or SIGTERM arrives while \<open>p\<close> is being processed.
\<close>

record World =
  backends :: "nat \<Rightarrow> C4Project \<Rightarrow> Backend"
  audits_started :: nat
  groundTruths :: "C4Project \<Rightarrow> string + Finding list"
  isoNow :: string
  seconds_taken :: "C4Project \<Rightarrow> nat"
  env_DD_VERSION :: "string option"
  files :: "(string list \<times> FileContent) list"
  stopSignal :: "C4Project \<Rightarrow> bool"

definition saveResults :: "string \<Rightarrow> string \<Rightarrow> Finding list \<Rightarrow> World \<Rightarrow> World" where
  "saveResults dir projectName findings w =
     w\<lparr>files := files w @
          [([dir, ''runs'', projectName, ''findings-'' @ fileStamp (isoNow w) @ ''.json''],
            FindingsJson findings)]\<rparr>"

definition saveRunResult :: "string \<Rightarrow> RunResult \<Rightarrow> World \<Rightarrow> World" where
  "saveRunResult dir result w =
     w\<lparr>files := files w @
          [([dir, ''runs'', project result, ''run-'' @ fileStamp (timestamp result) @ ''.json''],
            RunResultJson result)]\<rparr>"

section \<open>AuditRunner.runAudit\<close>

text \<open>
  The steps in order; a step that throws ends the function with its error. The
  instruction text of step 4 is a constant but for the repository URL and has no part
  in what the scripted backend answers, so it is not built here; the two seconds
  \<open>ensureContainer\<close> waits after a successful call change no state.
\<close>

definition AuditRunner_runAudit ::
  "C4Project \<Rightarrow> World \<times> AuditRunner \<Rightarrow> (string + Finding list) \<times> World \<times> AuditRunner" where
  "AuditRunner_runAudit p wr =
     (let b = backends (fst wr) (audits_started (fst wr)) p;
          w = (fst wr)\<lparr>audits_started := Suc (audits_started (fst wr))\<rparr>;
          r = (snd wr)\<lparr>lastSessionLogs := []\<rparr>
      in case createProject_response b of
           Rejected e \<Rightarrow> (Inl e, w, r)
         | HttpError c st errorText \<Rightarrow>
             (Inl (''Failed to create project: '' @ decimal c @ '' '' @ errorText), w, r)
         | HttpOk projectId \<Rightarrow>
        (case ensureContainer_response b of
           Rejected e \<Rightarrow> (Inl e, w, r)
         | HttpError c st errorText \<Rightarrow>
             (Inl (''Failed to ensure container: '' @ decimal c @ '' '' @ errorText), w, r)
         | HttpOk info \<Rightarrow>
        (case createSession_response b of
           Rejected e \<Rightarrow> (Inl e, w, r)
         | HttpError c st errorText \<Rightarrow> (Inl (''Failed to create session: '' @ st), w, r)
         | HttpOk sessionId \<Rightarrow>
        (case sendMessage b r of
           (Inl e, r') \<Rightarrow> (Inl e, w, r')
         | (Inr response, r') \<Rightarrow>
             (let findings = getFindingsFromProject b
              in (Inr findings, saveResults (outputDir r') (name p) findings w, r'))))))"

section \<open>BenchmarkRunner.runAudit and the scheduler that calls it\<close>

text \<open>
  \<open>DATA_DIR\<close> is the directory the constructor of \<open>BenchmarkRunner\<close> hands to the
  \<open>AuditRunner\<close> as its \<open>outputDir\<close>.
\<close>

definition BenchmarkRunner_runAudit ::
  "C4Project \<Rightarrow> World \<times> AuditRunner \<Rightarrow> (string + RunResult) \<times> World \<times> AuditRunner" where
  "BenchmarkRunner_runAudit p wr =
     (case groundTruths (fst wr) p of
        Inl e \<Rightarrow> (Inl e, wr)
      | Inr groundTruth \<Rightarrow>
          (case AuditRunner_runAudit p wr of
             (Inl e, w, r) \<Rightarrow> (Inl e, w, r)
           | (Inr ddFindings, w, r) \<Rightarrow>
               (let result = buildRunResult (isoNow w) (env_DD_VERSION w) p groundTruth ddFindings
                               (seconds_taken w p)
                in (Inr result, saveRunResult (outputDir r) result w, r))))"

text \<open>\<open>ExtendedScheduler\<close>: the scheduler whose \<open>runAudit\<close> is the runner's.\<close>

definition ExtendedScheduler :: "(World \<times> AuditRunner) SchedulerEnv" where
  "ExtendedScheduler =
     \<lparr> runAudit = BenchmarkRunner_runAudit,
       clock = (\<lambda>wr. isoNow (fst wr)),
       stopRequested = (\<lambda>p wr. stopSignal (fst wr) p) \<rparr>"

section \<open>Example inputs\<close>

definition demoProject :: C4Project where
  "demoProject = \<lparr> name = ''demo-proj'', repo = ''code-423n4/demo-proj'', status = Pending,
     priority = 1, findingsFile = None, findingsFiles = None, scopeFile = None,
     framework = Foundry, project_notes = None, lastRun = None \<rparr>"

definition otherProject :: C4Project where
  "otherProject = demoProject\<lparr> name := ''other-proj'', repo := ''code-423n4/other-proj'' \<rparr>"

text \<open>
  Three worlds for the scheduler alone (the world has no state): every audit returns the
  placeholder result; every audit throws; every audit returns and \<open>stop()\<close> is called
  while it runs.
\<close>

definition auditsSucceed :: "unit SchedulerEnv" where
  "auditsSucceed = \<lparr> runAudit = (\<lambda>p w. (Inr (placeholderResult ''2024-01-01T00:00:00.000Z'' p), w)),
     clock = (\<lambda>w. ''2024-01-01T00:00:00.000Z''), stopRequested = (\<lambda>p w. False) \<rparr>"

definition auditsFail :: "unit SchedulerEnv" where
  "auditsFail = \<lparr> runAudit = (\<lambda>p w. (Inl ''Failed to create project: 500 down'', w)),
     clock = (\<lambda>w. ''2024-01-01T00:00:00.000Z''), stopRequested = (\<lambda>p w. False) \<rparr>"

definition stopDuringAudit :: "unit SchedulerEnv" where
  "stopDuringAudit = auditsSucceed\<lparr> stopRequested := (\<lambda>p w. True) \<rparr>"

text \<open>A ground-truth finding and a DD finding, with the optional fields absent.\<close>

definition groundTruthFinding :: "string \<Rightarrow> Severity \<Rightarrow> Finding" where
  "groundTruthFinding i sev =
     \<lparr> finding_id = i, title = ''Reentrancy in withdraw'', severity = sev,
       description = ''State is written after the external call'', category = None,
       file_path = None, func = None, lines = None, targets = [''Vault.sol''],
       rootCause = None, impact = None, recommendation = None, source = GroundTruth,
       detector = None, confidence = None, raw = None, markdown = None, analysis = None \<rparr>"

definition ddFinding :: Finding where
  "ddFinding = (groundTruthFinding ''dd-1'' High)
     \<lparr> source := DDAudit, detector := Some ''slither'',
       analysis := Some \<lparr> process = None, tools = Some [''slither'', ''manual review''],
                           methods = Some [''taint analysis''], methodology = None,
                           duration = None, severityReasoning = None \<rparr> \<rparr>"

text \<open>
  Backends. \<open>healthyBackend\<close> answers every call; its session is idle at every poll
  with one assistant message that mentions slither, and it has one finding.
\<close>

definition agentMessage :: "string \<Rightarrow> Message" where
  "agentMessage t = \<lparr> role = ''assistant'', content = [\<lparr> part_type = ''text'', part_text = Some t \<rparr>] \<rparr>"

definition userMessage :: Message where
  "userMessage = \<lparr> role = ''user'',
     content = [\<lparr> part_type = ''text'', part_text = Some ''Run a comprehensive security audit'' \<rparr>] \<rparr>"

definition idlePoll :: "Message list \<Rightarrow> PollScript" where
  "idlePoll ms = \<lparr> status_response = HttpOk \<lparr> session_status = ''idle'', runningId = None \<rparr>,
     status_ms = 0, messages_response = HttpOk ms, messages_ms = 0 \<rparr>"

definition runningPoll :: PollScript where
  "runningPoll = \<lparr> status_response = HttpOk \<lparr> session_status = ''running'', runningId = Some ''run-1'' \<rparr>,
     status_ms = 0, messages_response = HttpOk [userMessage], messages_ms = 0 \<rparr>"

definition statusDownPoll :: PollScript where
  "statusDownPoll = runningPoll\<lparr> status_response := HttpError 502 ''Bad Gateway'' ''upstream'' \<rparr>"

definition remoteFinding :: RemoteFinding where
  "remoteFinding = \<lparr> meta = \<lparr> meta_id = Some ''f-1'', meta_title = Some ''Unchecked call'',
       meta_severity = Some ''HIGH'', meta_file = Some ''Vault.sol'', meta_function = None,
       meta_category = None, meta_detector = Some ''slither'', meta_confidence = None,
       meta_analysis = None \<rparr>,
     remote_content = Some ''The return value of the call is ignored'' \<rparr>"

definition healthyBackend :: Backend where
  "healthyBackend =
     \<lparr> createProject_response = HttpOk ''proj-1'',
       ensureContainer_response =
         HttpOk \<lparr> containerId = ''c-1'', wasCreated = True, wasRestarted = False \<rparr>,
       createSession_response = HttpOk ''sess-1'',
       chatStream_response = HttpOk ''run-1'',
       polls = (\<lambda>k. idlePoll [userMessage, agentMessage ''Ran slither: 1 issue'']),
       finalMessages_response = HttpOk [userMessage, agentMessage ''Ran slither: 1 issue''],
       findings_response = HttpOk [remoteFinding] \<rparr>"

text \<open>
  The agent's only message asks for the repository URL and mentions slither.
\<close>

definition askingBackend :: Backend where
  "askingBackend = healthyBackend
     \<lparr> polls := (\<lambda>k. idlePoll [userMessage,
          agentMessage ''Could you please provide the repository URL? I will then run slither.'']) \<rparr>"

text \<open>The session is running at every poll and no assistant message ever appears.\<close>

definition silentBackend :: Backend where
  "silentBackend = healthyBackend
     \<lparr> polls := (\<lambda>k. runningPoll), finalMessages_response := HttpOk [userMessage],
       findings_response := HttpOk [] \<rparr>"

text \<open>The first status check fails with HTTP 502; the later polls are healthy.\<close>

definition flakyBackend :: Backend where
  "flakyBackend = healthyBackend
     \<lparr> polls := (\<lambda>k. if k = 1 then statusDownPoll
                      else idlePoll [userMessage, agentMessage ''Ran slither: 1 issue'']) \<rparr>"

definition containerDownBackend :: Backend where
  "containerDownBackend = healthyBackend
     \<lparr> ensureContainer_response := HttpError 500 ''Internal Server Error'' ''docker unavailable'' \<rparr>"

definition findingsDownBackend :: Backend where
  "findingsDownBackend = healthyBackend
     \<lparr> findings_response := HttpError 500 ''Internal Server Error'' ''db unavailable'' \<rparr>"

definition worldWith :: "Backend \<Rightarrow> World" where
  "worldWith b =
     \<lparr> backends = (\<lambda>n p. b), audits_started = 0,
       groundTruths = (\<lambda>p. Inr [groundTruthFinding ''H-01'' High, groundTruthFinding ''M-01'' Medium]),
       isoNow = ''2024-01-01T00:00:00.000Z'', seconds_taken = (\<lambda>p. 42), env_DD_VERSION = None,
       files = [], stopSignal = (\<lambda>p. False) \<rparr>"

definition newAuditRunner :: AuditRunner where
  "newAuditRunner = \<lparr> config = \<lparr> baseUrl = ''http://localhost:3001'', timeout = 20000 \<rparr>,
     outputDir = ''data'', lastSessionLogs = [] \<rparr>"

section \<open>The scheduler loop\<close>

lemma shouldStop_runProject:
  "shouldStop (fst (runProject env p sw)) = (shouldStop (fst sw) \<or> stopRequested env p (snd (runAudit env p (snd sw))))"
  by (simp add: runProject_def Let_def saveCheckpoint_def emit_def stop_def split: sum.splits)

lemma completed_runProject:
  "completedProjects (checkpoint (fst (runProject env p sw))) =
     (case fst (runAudit env p (snd sw)) of
        Inr r \<Rightarrow> completedProjects (checkpoint (fst sw)) @ [name p]
      | Inl m \<Rightarrow> completedProjects (checkpoint (fst sw)))"
  by (simp add: runProject_def Let_def saveCheckpoint_def emit_def stop_def split: sum.splits)

lemma failed_runProject:
  "failedProjects (checkpoint (fst (runProject env p sw))) =
     (case fst (runAudit env p (snd sw)) of
        Inr r \<Rightarrow> failedProjects (checkpoint (fst sw))
      | Inl m \<Rightarrow> failedProjects (checkpoint (fst sw)) @ [name p])"
  by (simp add: runProject_def Let_def saveCheckpoint_def emit_def stop_def split: sum.splits)

lemma audited_runProject:
  "audited (fst (runProject env p sw)) = audited (fst sw) @ [p]"
  by (simp add: runProject_def Let_def saveCheckpoint_def emit_def stop_def split: sum.splits)

lemma saved_runProject:
  "checkpointFile (fst (runProject env p sw)) = Some (checkpoint (fst (runProject env p sw)))
   \<and> currentProject (checkpoint (fst (runProject env p sw))) = None"
  by (simp add: runProject_def Let_def saveCheckpoint_def emit_def stop_def split: sum.splits)

lemma runBenchmark_stopped:
  "shouldStop (fst sw) \<Longrightarrow> runBenchmark env ps sw = sw"
  by (cases ps) auto

lemma runBenchmark_append:
  "runBenchmark env (xs @ ys) sw = runBenchmark env ys (runBenchmark env xs sw)"
  by (induction xs arbitrary: sw) (auto simp: runBenchmark_stopped)

lemma recorded_runProject:
  "mset (completedProjects (checkpoint (fst (runProject env p sw)))
         @ failedProjects (checkpoint (fst (runProject env p sw)))) =
   mset (completedProjects (checkpoint (fst sw)) @ failedProjects (checkpoint (fst sw))) + {#name p#}"
  by (simp add: completed_runProject failed_runProject split: sum.splits)

lemma completed_runProject_subset:
  "set (completedProjects (checkpoint (fst (runProject env p sw))))
     \<subseteq> insert (name p) (set (completedProjects (checkpoint (fst sw))))"
  by (auto simp: completed_runProject split: sum.splits)

lemma completed_runProject_mono:
  "set (completedProjects (checkpoint (fst sw)))
     \<subseteq> set (completedProjects (checkpoint (fst (runProject env p sw))))"
  by (auto simp: completed_runProject split: sum.splits)

lemma runBenchmark_records_all:
  assumes "\<not> shouldStop (fst sw)"
    and "\<And>p w. \<not> stopRequested env p w"
    and "distinct (map name ps)"
    and "set (map name ps) \<inter> set (completedProjects (checkpoint (fst sw))) = {}"
  shows "mset (completedProjects (checkpoint (fst (runBenchmark env ps sw)))
              @ failedProjects (checkpoint (fst (runBenchmark env ps sw)))) =
         mset (completedProjects (checkpoint (fst sw)) @ failedProjects (checkpoint (fst sw)))
           + mset (map name ps)"
  using assms
proof (induction ps arbitrary: sw)
  case Nil
  then show ?case by simp
next
  case (Cons p ps)
  let ?sw' = "runProject env p sw"
  have notin: "name p \<notin> set (completedProjects (checkpoint (fst sw)))"
    using Cons.prems(4) by auto
  have ns: "\<not> shouldStop (fst ?sw')"
    using Cons.prems(1,2) by (simp add: shouldStop_runProject)
  have disj: "set (map name ps) \<inter> set (completedProjects (checkpoint (fst ?sw'))) = {}"
  proof -
    have a: "name p \<notin> set (map name ps)" and b: "set (map name ps) \<inter> set (completedProjects (checkpoint (fst sw))) = {}"
      using Cons.prems(3,4) by auto
    show ?thesis
      using a b completed_runProject_subset[of env p sw] by blast
  qed
  have "mset (completedProjects (checkpoint (fst (runBenchmark env ps ?sw')))
              @ failedProjects (checkpoint (fst (runBenchmark env ps ?sw')))) =
        mset (completedProjects (checkpoint (fst ?sw')) @ failedProjects (checkpoint (fst ?sw')))
           + mset (map name ps)"
    using Cons.IH[OF ns Cons.prems(2) _ disj] Cons.prems(3) by simp
  then show ?case
    using notin Cons.prems(1) recorded_runProject[of env p sw] by simp
qed

lemma audited_runBenchmark:
  "\<exists>xs. audited (fst (runBenchmark env ps sw)) = audited (fst sw) @ xs
        \<and> (\<forall>q\<in>set xs. name q \<notin> set (completedProjects (checkpoint (fst sw))))"
proof (induction ps arbitrary: sw)
  case Nil
  then show ?case by simp
next
  case (Cons p ps)
  show ?case
  proof (cases "shouldStop (fst sw) \<or> name p \<in> set (completedProjects (checkpoint (fst sw)))")
    case True
    then show ?thesis using Cons.IH[of sw] by auto
  next
    case False
    obtain xs where xs: "audited (fst (runBenchmark env ps (runProject env p sw))) =
         audited (fst (runProject env p sw)) @ xs"
       "\<forall>q\<in>set xs. name q \<notin> set (completedProjects (checkpoint (fst (runProject env p sw))))"
      using Cons.IH[of "runProject env p sw"] by blast
    have "\<forall>q\<in>set (p # xs). name q \<notin> set (completedProjects (checkpoint (fst sw)))"
      using xs(2) False completed_runProject_mono[of sw env p] by auto
    moreover have "audited (fst (runBenchmark env (p # ps) sw)) = audited (fst sw) @ (p # xs)"
      using False xs(1) by (simp add: audited_runProject)
    ultimately show ?thesis by blast
  qed
qed

text \<open>
  \<^bold>\<open>C3\<close> (as amended). For every list of projects with pairwise distinct names, every
  world in which \<open>stop()\<close> is never called, and a scheduler fresh from its constructor
  (empty checkpoint), \<open>start\<close> returns, and at its end
  \<open>completedProjects.length + failedProjects.length\<close> is the number of projects: the two
  lists together hold each project's name exactly once, and no name is in both.
\<close>

theorem scheduler_records_each_distinct_project_once:
  assumes "distinct (map name projects)"
    and "\<forall>p w. \<not> stopRequested env p w"
  shows "\<exists>s w'. start env projects (newScheduler now, w) = Inr (s, w')
           \<and> length (completedProjects (checkpoint s)) + length (failedProjects (checkpoint s))
               = length projects
           \<and> mset (completedProjects (checkpoint s) @ failedProjects (checkpoint s))
               = mset (map name projects)
           \<and> set (completedProjects (checkpoint s)) \<inter> set (failedProjects (checkpoint s)) = {}"
proof -
  let ?s0 = "(newScheduler now)\<lparr>isRunning := True, shouldStop := False\<rparr>"
  let ?r = "runBenchmark env projects (?s0, w)"
  let ?c = "completedProjects (checkpoint (fst ?r))"
  let ?f = "failedProjects (checkpoint (fst ?r))"
  have empty: "completedProjects (checkpoint ?s0) = []" "failedProjects (checkpoint ?s0) = []"
    by (simp_all add: newScheduler_def createInitialCheckpoint_def)
  have m: "mset (?c @ ?f) = mset (map name projects)"
    using runBenchmark_records_all[of "(?s0, w)" env projects] assms empty by simp
  then have len: "length ?c + length ?f = length projects"
    by (metis length_append length_map size_mset)
  have "distinct (?c @ ?f)"
    using m assms(1) by (metis distinct_count_atmost_1 set_mset_mset)
  then have disj: "set ?c \<inter> set ?f = {}" by simp
  have st: "start env projects (newScheduler now, w) = Inr ((fst ?r)\<lparr>isRunning := False\<rparr>, snd ?r)"
    by (simp add: start_def newScheduler_def Let_def)
  show ?thesis
    using st m len disj by simp
qed

text \<open>The theorem at two projects with different names, both audited with success.\<close>

theorem scheduler_records_each_distinct_project_once_witness:
  "distinct (map name [demoProject, otherProject])
   \<and> (\<forall>p w. \<not> stopRequested auditsSucceed p w)
   \<and> (\<exists>s w'. start auditsSucceed [demoProject, otherProject]
                 (newScheduler ''2024-01-01T00:00:00.000Z'', ()) = Inr (s, w')
           \<and> length (completedProjects (checkpoint s)) + length (failedProjects (checkpoint s))
               = length [demoProject, otherProject]
           \<and> mset (completedProjects (checkpoint s) @ failedProjects (checkpoint s))
               = mset (map name [demoProject, otherProject])
           \<and> set (completedProjects (checkpoint s)) \<inter> set (failedProjects (checkpoint s)) = {})"
proof -
  have d: "distinct (map name [demoProject, otherProject])"
    by (simp add: demoProject_def otherProject_def)
  have n: "\<forall>p w. \<not> stopRequested auditsSucceed p w"
    by (simp add: auditsSucceed_def)
  show ?thesis
    using d n scheduler_records_each_distinct_project_once[OF d n, of "''2024-01-01T00:00:00.000Z''" "()"]
    by blast
qed

text \<open>
  As the specification states it, the property fails on a list that names a project twice: the first entry
  completes, the second is skipped as already completed, and the two lists hold one
  name for a list of two projects.
\<close>

theorem duplicate_project_counterexample:
  "\<not> isl (start auditsSucceed [demoProject, demoProject] (newScheduler ''2024-01-01T00:00:00.000Z'', ()))
   \<and> completedProjects (checkpoint (fst (projr
         (start auditsSucceed [demoProject, demoProject] (newScheduler ''2024-01-01T00:00:00.000Z'', ())))))
       = [''demo-proj'']
   \<and> failedProjects (checkpoint (fst (projr
         (start auditsSucceed [demoProject, demoProject] (newScheduler ''2024-01-01T00:00:00.000Z'', ())))))
       = []
   \<and> length (completedProjects (checkpoint (fst (projr
         (start auditsSucceed [demoProject, demoProject] (newScheduler ''2024-01-01T00:00:00.000Z'', ()))))))
     + length (failedProjects (checkpoint (fst (projr
         (start auditsSucceed [demoProject, demoProject] (newScheduler ''2024-01-01T00:00:00.000Z'', ()))))))
     \<noteq> length [demoProject, demoProject]"
  by (simp add: start_def newScheduler_def createInitialCheckpoint_def runProject_def
      saveCheckpoint_def emit_def stop_def auditsSucceed_def demoProject_def placeholderResult_def
      Let_def)

text \<open>
  \<^bold>\<open>C4\<close>. If the name of \<open>P\<close> is in \<open>completedProjects\<close> when the loop reaches
  \<open>P\<close> (after the projects \<open>pre\<close>), the iteration of \<open>P\<close> changes nothing: the run over
  \<open>pre @ [P]\<close> ends in the state of the run over \<open>pre\<close>, the whole run is the run
  of the list without \<open>P\<close>, and no project named as \<open>P\<close> is among those \<open>runAudit\<close> is
  invoked for from then on.
\<close>

theorem completed_project_is_never_audited:
  assumes "name P \<in> set (completedProjects (checkpoint (fst (runBenchmark env pre sw))))"
  shows "runBenchmark env (pre @ [P]) sw = runBenchmark env pre sw
         \<and> runBenchmark env (pre @ P # post) sw = runBenchmark env (pre @ post) sw
         \<and> (\<exists>later. audited (fst (runBenchmark env (pre @ P # post) sw))
                         = audited (fst (runBenchmark env pre sw)) @ later
                     \<and> name P \<notin> name ` set later)"
proof -
  let ?sw1 = "runBenchmark env pre sw"
  have skip: "runBenchmark env (P # ps) ?sw1 = runBenchmark env ps ?sw1" for ps
    using assms by (cases "shouldStop (fst ?sw1)") (simp_all add: runBenchmark_stopped)
  have a: "runBenchmark env (pre @ [P]) sw = ?sw1"
    using skip[of "[]"] by (simp add: runBenchmark_append)
  have b: "runBenchmark env (pre @ P # post) sw = runBenchmark env (pre @ post) sw"
    using skip[of post] by (simp add: runBenchmark_append)
  obtain later where l: "audited (fst (runBenchmark env post ?sw1)) = audited (fst ?sw1) @ later"
      "\<forall>q\<in>set later. name q \<notin> set (completedProjects (checkpoint (fst ?sw1)))"
    using audited_runBenchmark[of env post ?sw1] by blast
  have "name P \<notin> name ` set later"
    using l(2) assms by auto
  moreover have "audited (fst (runBenchmark env (pre @ P # post) sw)) = audited (fst ?sw1) @ later"
    using b l(1) by (simp add: runBenchmark_append)
  ultimately show ?thesis
    using a b by blast
qed

text \<open>The theorem at a list that names the demo project twice.\<close>

theorem completed_project_is_never_audited_witness:
  "name demoProject \<in> set (completedProjects (checkpoint (fst
       (runBenchmark auditsSucceed [demoProject] (newScheduler ''2024-01-01T00:00:00.000Z'', ())))))
   \<and> runBenchmark auditsSucceed ([demoProject] @ [demoProject]) (newScheduler ''2024-01-01T00:00:00.000Z'', ())
       = runBenchmark auditsSucceed [demoProject] (newScheduler ''2024-01-01T00:00:00.000Z'', ())
   \<and> map name (audited (fst (runBenchmark auditsSucceed ([demoProject] @ [demoProject])
         (newScheduler ''2024-01-01T00:00:00.000Z'', ())))) = [''demo-proj'']"
proof -
  let ?sw = "(newScheduler ''2024-01-01T00:00:00.000Z'', ())"
  have c: "completedProjects (checkpoint (fst (runBenchmark auditsSucceed [demoProject] ?sw)))
             = [''demo-proj'']"
    by (simp add: newScheduler_def createInitialCheckpoint_def runProject_def
        saveCheckpoint_def emit_def stop_def auditsSucceed_def demoProject_def placeholderResult_def
        Let_def)
  have au: "map name (audited (fst (runBenchmark auditsSucceed [demoProject] ?sw))) = [''demo-proj'']"
    by (simp add: newScheduler_def createInitialCheckpoint_def runProject_def
        saveCheckpoint_def emit_def stop_def auditsSucceed_def demoProject_def placeholderResult_def
        Let_def)
  have h: "name demoProject \<in> set (completedProjects (checkpoint (fst
       (runBenchmark auditsSucceed [demoProject] ?sw))))"
    using c by (simp add: demoProject_def)
  from completed_project_is_never_audited[OF h, of "[]"]
  have e: "runBenchmark auditsSucceed ([demoProject] @ [demoProject]) ?sw
       = runBenchmark auditsSucceed [demoProject] ?sw" by blast
  show ?thesis
    using h e au by simp
qed

text \<open>
  \<^bold>\<open>C5\<close>. The loop reaches \<open>P\<close> with \<open>shouldStop\<close> clear and \<open>P\<close> not completed, and
  \<open>stop()\<close> is called while the body of \<open>P\<close> runs. Then the run is exactly the full
  body of \<open>P\<close>: \<open>runAudit\<close> was invoked for \<open>P\<close> and for no project of \<open>rest\<close>, the
  outcome of \<open>P\<close> is appended to \<open>completedProjects\<close> (success) or \<open>failedProjects\<close>
  (error), the checkpoint holding it is saved, and the loop exits with the flag set.
\<close>

theorem stop_during_a_project_halts_at_the_next_boundary:
  assumes "\<not> shouldStop (fst sw)"
    and "name P \<notin> set (completedProjects (checkpoint (fst sw)))"
    and "stopRequested env P (snd (runAudit env P (snd sw)))"
  shows "runBenchmark env (P # rest) sw = runProject env P sw
         \<and> audited (fst (runBenchmark env (P # rest) sw)) = audited (fst sw) @ [P]
         \<and> (case fst (runAudit env P (snd sw)) of
               Inr result \<Rightarrow>
                 completedProjects (checkpoint (fst (runBenchmark env (P # rest) sw)))
                   = completedProjects (checkpoint (fst sw)) @ [name P]
                 \<and> failedProjects (checkpoint (fst (runBenchmark env (P # rest) sw)))
                   = failedProjects (checkpoint (fst sw))
             | Inl message \<Rightarrow>
                 failedProjects (checkpoint (fst (runBenchmark env (P # rest) sw)))
                   = failedProjects (checkpoint (fst sw)) @ [name P]
                 \<and> completedProjects (checkpoint (fst (runBenchmark env (P # rest) sw)))
                   = completedProjects (checkpoint (fst sw)))
         \<and> checkpointFile (fst (runBenchmark env (P # rest) sw))
             = Some (checkpoint (fst (runBenchmark env (P # rest) sw)))
         \<and> shouldStop (fst (runBenchmark env (P # rest) sw))"
proof -
  have st: "shouldStop (fst (runProject env P sw))"
    using assms(3) by (simp add: shouldStop_runProject)
  have eq: "runBenchmark env (P # rest) sw = runProject env P sw"
    using assms(1,2) st by (simp add: runBenchmark_stopped)
  show ?thesis
    unfolding eq using st
    by (simp add: audited_runProject completed_runProject failed_runProject saved_runProject
        split: sum.splits)
qed

text \<open>The theorem at a run of two projects where the stop arrives during the first.\<close>

theorem stop_during_a_project_halts_at_the_next_boundary_witness:
  "\<not> shouldStop (fst (newScheduler ''2024-01-01T00:00:00.000Z'', ()))
   \<and> name demoProject \<notin> set (completedProjects (checkpoint (fst (newScheduler ''2024-01-01T00:00:00.000Z'', ()))))
   \<and> stopRequested stopDuringAudit demoProject
         (snd (runAudit stopDuringAudit demoProject (snd (newScheduler ''2024-01-01T00:00:00.000Z'', ()))))
   \<and> map name (audited (fst (runBenchmark stopDuringAudit [demoProject, otherProject]
           (newScheduler ''2024-01-01T00:00:00.000Z'', ())))) = [''demo-proj'']
   \<and> completedProjects (checkpoint (fst (runBenchmark stopDuringAudit [demoProject, otherProject]
           (newScheduler ''2024-01-01T00:00:00.000Z'', ())))) = [''demo-proj'']"
proof -
  let ?sw = "(newScheduler ''2024-01-01T00:00:00.000Z'', ())"
  have a: "\<not> shouldStop (fst ?sw)"
    by (simp add: newScheduler_def)
  have b: "name demoProject \<notin> set (completedProjects (checkpoint (fst ?sw)))"
    by (simp add: newScheduler_def createInitialCheckpoint_def)
  have c: "stopRequested stopDuringAudit demoProject
         (snd (runAudit stopDuringAudit demoProject (snd ?sw)))"
    by (simp add: stopDuringAudit_def)
  have ok: "fst (runAudit stopDuringAudit demoProject (snd ?sw))
      = Inr (placeholderResult ''2024-01-01T00:00:00.000Z'' demoProject)"
    by (simp add: stopDuringAudit_def auditsSucceed_def)
  have e: "audited (fst ?sw) = []" "completedProjects (checkpoint (fst ?sw)) = []"
    by (simp_all add: newScheduler_def createInitialCheckpoint_def)
  have n: "name demoProject = ''demo-proj''"
    by (simp add: demoProject_def)
  from stop_during_a_project_halts_at_the_next_boundary[OF a b c, of "[otherProject]"]
  have au: "audited (fst (runBenchmark stopDuringAudit [demoProject, otherProject] ?sw))
              = audited (fst ?sw) @ [demoProject]"
    and co: "(case fst (runAudit stopDuringAudit demoProject (snd ?sw)) of
               Inr result \<Rightarrow>
                 completedProjects (checkpoint (fst (runBenchmark stopDuringAudit [demoProject, otherProject] ?sw)))
                   = completedProjects (checkpoint (fst ?sw)) @ [name demoProject]
                 \<and> failedProjects (checkpoint (fst (runBenchmark stopDuringAudit [demoProject, otherProject] ?sw)))
                   = failedProjects (checkpoint (fst ?sw))
             | Inl message \<Rightarrow>
                 failedProjects (checkpoint (fst (runBenchmark stopDuringAudit [demoProject, otherProject] ?sw)))
                   = failedProjects (checkpoint (fst ?sw)) @ [name demoProject]
                 \<and> completedProjects (checkpoint (fst (runBenchmark stopDuringAudit [demoProject, otherProject] ?sw)))
                   = completedProjects (checkpoint (fst ?sw)))"
    by blast+
  have co': "completedProjects (checkpoint (fst (runBenchmark stopDuringAudit [demoProject, otherProject] ?sw)))
               = completedProjects (checkpoint (fst ?sw)) @ [name demoProject]"
    using co unfolding ok by simp
  have "map name (audited (fst (runBenchmark stopDuringAudit [demoProject, otherProject] ?sw))) = [''demo-proj'']"
    unfolding au using e(1) n by simp
  moreover have "completedProjects (checkpoint (fst (runBenchmark stopDuringAudit [demoProject, otherProject] ?sw)))
      = [''demo-proj'']"
    unfolding co' using e(2) n by simp
  ultimately show ?thesis
    using a b c by blast
qed

text \<open>
  \<^bold>\<open>C10\<close>. The loop reaches \<open>P\<close> with \<open>shouldStop\<close> clear, \<open>P\<close> in
  \<open>failedProjects\<close> and not in \<open>completedProjects\<close>. Then \<open>P\<close> is not skipped: its body
  runs, \<open>runAudit\<close> is invoked for it, and when the audit throws again the name of \<open>P\<close>
  is appended to \<open>failedProjects\<close> once more, which then holds it more than once.
\<close>

theorem failed_project_is_audited_again:
  assumes "\<not> shouldStop (fst sw)"
    and "name P \<notin> set (completedProjects (checkpoint (fst sw)))"
    and "name P \<in> set (failedProjects (checkpoint (fst sw)))"
  shows "runBenchmark env (P # rest) sw = runBenchmark env rest (runProject env P sw)
         \<and> audited (fst (runProject env P sw)) = audited (fst sw) @ [P]
         \<and> (\<forall>message. fst (runAudit env P (snd sw)) = Inl message \<longrightarrow>
               failedProjects (checkpoint (fst (runProject env P sw)))
                 = failedProjects (checkpoint (fst sw)) @ [name P]
               \<and> count_list (failedProjects (checkpoint (fst (runProject env P sw)))) (name P)
                 = Suc (count_list (failedProjects (checkpoint (fst sw))) (name P))
               \<and> \<not> distinct (failedProjects (checkpoint (fst (runProject env P sw)))))"
  using assms by (auto simp: audited_runProject failed_runProject)

text \<open>The theorem at a second attempt of the demo project after a failed first one.\<close>

theorem failed_project_is_audited_again_witness:
  "\<not> shouldStop (fst (runBenchmark auditsFail [demoProject] (newScheduler ''2024-01-01T00:00:00.000Z'', ())))
   \<and> name demoProject \<notin> set (completedProjects (checkpoint (fst
         (runBenchmark auditsFail [demoProject] (newScheduler ''2024-01-01T00:00:00.000Z'', ())))))
   \<and> name demoProject \<in> set (failedProjects (checkpoint (fst
         (runBenchmark auditsFail [demoProject] (newScheduler ''2024-01-01T00:00:00.000Z'', ())))))
   \<and> failedProjects (checkpoint (fst (runProject auditsFail demoProject
         (runBenchmark auditsFail [demoProject] (newScheduler ''2024-01-01T00:00:00.000Z'', ())))))
       = [''demo-proj'', ''demo-proj'']
   \<and> map name (audited (fst (runProject auditsFail demoProject
         (runBenchmark auditsFail [demoProject] (newScheduler ''2024-01-01T00:00:00.000Z'', ())))))
       = [''demo-proj'', ''demo-proj'']"
proof -
  let ?sw = "runBenchmark auditsFail [demoProject] (newScheduler ''2024-01-01T00:00:00.000Z'', ())"
  have a: "\<not> shouldStop (fst ?sw)"
    by (simp add: shouldStop_runProject newScheduler_def createInitialCheckpoint_def auditsFail_def)
  have b0: "completedProjects (checkpoint (fst ?sw)) = []"
    by (simp add: completed_runProject newScheduler_def createInitialCheckpoint_def auditsFail_def)
  have c0: "failedProjects (checkpoint (fst ?sw)) = [''demo-proj'']"
    by (simp add: failed_runProject newScheduler_def createInitialCheckpoint_def auditsFail_def
        demoProject_def)
  have d0: "map name (audited (fst ?sw)) = [''demo-proj'']"
    by (simp add: audited_runProject newScheduler_def createInitialCheckpoint_def auditsFail_def
        demoProject_def)
  have n: "name demoProject = ''demo-proj''"
    by (simp add: demoProject_def)
  have b: "name demoProject \<notin> set (completedProjects (checkpoint (fst ?sw)))"
    using b0 by simp
  have c: "name demoProject \<in> set (failedProjects (checkpoint (fst ?sw)))"
    using c0 n by simp
  have f: "fst (runAudit auditsFail demoProject (snd ?sw)) = Inl ''Failed to create project: 500 down''"
    by (simp add: auditsFail_def)
  from failed_project_is_audited_again[OF a b c, of auditsFail "[]"] f
  have F: "failedProjects (checkpoint (fst (runProject auditsFail demoProject ?sw)))
          = failedProjects (checkpoint (fst ?sw)) @ [name demoProject]"
    and A: "audited (fst (runProject auditsFail demoProject ?sw)) = audited (fst ?sw) @ [demoProject]"
    by blast+
  have F': "failedProjects (checkpoint (fst (runProject auditsFail demoProject ?sw)))
          = [''demo-proj'', ''demo-proj'']"
    unfolding F c0 n by (simp only: append.simps)
  have "map name (audited (fst (runProject auditsFail demoProject ?sw)))
          = map name (audited (fst ?sw)) @ [name demoProject]"
    unfolding A by (simp only: map_append list.map)
  then have A': "map name (audited (fst (runProject auditsFail demoProject ?sw)))
          = [''demo-proj'', ''demo-proj'']"
    unfolding d0 n by (simp only: append.simps)
  show ?thesis
    using a b c F' A' by blast
qed

section \<open>Severity normalization\<close>

lemma includes_str_iff: "includes_str s t \<longleftrightarrow> (\<exists>p q. s = p @ t @ q)"
proof (induction s)
  case Nil
  then show ?case by auto
next
  case (Cons c s)
  show ?case
  proof
    assume "includes_str (c # s) t"
    then consider "startsWith (c # s) t" | "includes_str s t" by auto
    then show "\<exists>p q. c # s = p @ t @ q"
    proof cases
      case 1
      then have "c # s = [] @ t @ drop (length t) (c # s)"
        unfolding startsWith_def by (metis append_Nil append_take_drop_id)
      then show ?thesis by blast
    next
      case 2
      then obtain p q where "s = p @ t @ q" using Cons.IH by blast
      then have "c # s = (c # p) @ t @ q" by simp
      then show ?thesis by blast
    qed
  next
    assume "\<exists>p q. c # s = p @ t @ q"
    then obtain p q where pq: "c # s = p @ t @ q" by blast
    show "includes_str (c # s) t"
    proof (cases p)
      case Nil
      then have "startsWith (c # s) t" using pq by (simp add: startsWith_def)
      then show ?thesis by simp
    next
      case (Cons a p')
      then have "s = p' @ t @ q" using pq by simp
      then show ?thesis using Cons.IH by auto
    qed
  qed
qed

lemma normalizeSeverity_of_severity_string:
  "normalizeSeverity (Some (severity_string v)) = v"
  by (cases v)
    (simp_all add: normalizeSeverity_def toLowerCase_def toLowerChar_def startsWith_def)

text \<open>
  \<^bold>\<open>C1\<close> (as amended). Severity normalization is total and idempotent: for every
  input (a string, or absent) it returns one of \<open>critical\<close>, \<open>high\<close>, \<open>medium\<close>, \<open>low\<close>,
  \<open>info\<close>, and normalizing its own result returns that result. An absent or empty input
  gives \<open>medium\<close>. A non-empty input is decided by the first of \<open>crit\<close>, \<open>high\<close>, \<open>med\<close>,
  \<open>low\<close> that occurs in the lower-cased input, and a non-empty input in which none of
  them occurs gives \<open>info\<close>.
\<close>

theorem normalizeSeverity_total_idempotent:
  "severity_string (normalizeSeverity sev) \<in> {''critical'', ''high'', ''medium'', ''low'', ''info''}
   \<and> normalizeSeverity (Some (severity_string (normalizeSeverity sev))) = normalizeSeverity sev
   \<and> normalizeSeverity None = Medium
   \<and> normalizeSeverity (Some []) = Medium
   \<and> (\<forall>s. s \<noteq> [] \<longrightarrow> normalizeSeverity (Some s) =
         (if \<exists>p q. toLowerCase s = p @ ''crit'' @ q then Critical
          else if \<exists>p q. toLowerCase s = p @ ''high'' @ q then High
          else if \<exists>p q. toLowerCase s = p @ ''med'' @ q then Medium
          else if \<exists>p q. toLowerCase s = p @ ''low'' @ q then Low
          else Info))"
proof -
  have a: "severity_string (normalizeSeverity sev) \<in> {''critical'', ''high'', ''medium'', ''low'', ''info''}"
    by (cases "normalizeSeverity sev") simp_all
  have b: "normalizeSeverity (Some (severity_string (normalizeSeverity sev))) = normalizeSeverity sev"
    by (rule normalizeSeverity_of_severity_string)
  have c: "normalizeSeverity None = Medium" "normalizeSeverity (Some []) = Medium"
    by (simp_all add: normalizeSeverity_def)
  have d: "normalizeSeverity (Some s) =
         (if \<exists>p q. toLowerCase s = p @ ''crit'' @ q then Critical
          else if \<exists>p q. toLowerCase s = p @ ''high'' @ q then High
          else if \<exists>p q. toLowerCase s = p @ ''med'' @ q then Medium
          else if \<exists>p q. toLowerCase s = p @ ''low'' @ q then Low
          else Info)" if "s \<noteq> []" for s
    using that unfolding normalizeSeverity_def Let_def includes_str_iff by simp
  show ?thesis
    using a b c d by blast
qed

text \<open>The theorem at the inputs \<open>High Risk\<close> and \<open>unknown\<close>.\<close>

theorem normalizeSeverity_total_idempotent_witness:
  "''unknown'' \<noteq> []
   \<and> normalizeSeverity (Some ''unknown'') = Info
   \<and> normalizeSeverity (Some ''High Risk'') = High
   \<and> normalizeSeverity (Some (severity_string (normalizeSeverity (Some ''High Risk''))))
       = normalizeSeverity (Some ''High Risk'')"
proof -
  from normalizeSeverity_total_idempotent[of "Some ''High Risk''"]
  have i: "normalizeSeverity (Some (severity_string (normalizeSeverity (Some ''High Risk''))))
       = normalizeSeverity (Some ''High Risk'')"
    by blast
  have u: "normalizeSeverity (Some ''unknown'') = Info"
    by (simp add: normalizeSeverity_def toLowerCase_def toLowerChar_def startsWith_def)
  have h: "normalizeSeverity (Some ''High Risk'') = High"
    by code_simp
  show ?thesis
    using i u h by simp
qed

text \<open>
  The specification gives \<open>medium\<close> for every unrecognized input. The input \<open>unknown\<close>
  holds none of the four keys, and the result is \<open>info\<close>.
\<close>

theorem unrecognized_severity_counterexample:
  "\<not> includes_str (toLowerCase ''unknown'') ''crit''
   \<and> \<not> includes_str (toLowerCase ''unknown'') ''high''
   \<and> \<not> includes_str (toLowerCase ''unknown'') ''med''
   \<and> \<not> includes_str (toLowerCase ''unknown'') ''low''
   \<and> normalizeSeverity (Some ''unknown'') = Info
   \<and> normalizeSeverity (Some ''unknown'') \<noteq> Medium"
  by (simp add: normalizeSeverity_def toLowerCase_def toLowerChar_def startsWith_def)

section \<open>The run result\<close>

lemma countBySeverity_lookup:
  "countBySeverity fs m s =
     (let c = length (filter (\<lambda>f. severity f = s) fs) in
      if c = 0 then m s else Some ((case m s of None \<Rightarrow> 0 | Some n \<Rightarrow> n) + c))"
  by (induction fs arbitrary: m) (auto simp: Let_def)

lemma severity_counts_sum:
  "(\<Sum>s\<leftarrow>[Critical, High, Medium, Low, Info]. length (filter (\<lambda>f. severity f = s) fs)) = length fs"
proof (induction fs)
  case Nil
  then show ?case by simp
next
  case (Cons f fs)
  then show ?case by (cases "severity f") auto
qed

text \<open>
  \<^bold>\<open>C8\<close>. In the result built from the ground-truth findings \<open>G\<close> and the DD findings
  \<open>D\<close>: \<open>ground_truth.total\<close> is the length of \<open>G\<close>; \<open>by_severity\<close> has a key for exactly
  the severities that occur in \<open>G\<close>, and its value is the number of findings of \<open>G\<close> with
  that severity; these counts sum to the total; \<open>dd_findings.total\<close> is the length of
  \<open>D\<close>; and the two finding lists are \<open>G\<close> and \<open>D\<close> themselves.
\<close>

theorem buildRunResult_counts:
  "gt_total (ground_truth (buildRunResult now v p G D d)) = length G
   \<and> (\<forall>s. by_severity (ground_truth (buildRunResult now v p G D d)) s =
          (if length (filter (\<lambda>f. severity f = s) G) = 0 then None
           else Some (length (filter (\<lambda>f. severity f = s) G))))
   \<and> (\<Sum>s\<leftarrow>[Critical, High, Medium, Low, Info].
          case by_severity (ground_truth (buildRunResult now v p G D d)) s of
            None \<Rightarrow> 0 | Some n \<Rightarrow> n) = length G
   \<and> dd_total (dd_findings (buildRunResult now v p G D d)) = length D
   \<and> gt_findings (ground_truth (buildRunResult now v p G D d)) = G
   \<and> dd_found (dd_findings (buildRunResult now v p G D d)) = D"
proof -
  have look: "by_severity (ground_truth (buildRunResult now v p G D d)) s =
          (if length (filter (\<lambda>f. severity f = s) G) = 0 then None
           else Some (length (filter (\<lambda>f. severity f = s) G)))" for s
    by (simp add: buildRunResult_def Let_def countBySeverity_lookup)
  have "(\<Sum>s\<leftarrow>[Critical, High, Medium, Low, Info].
          case by_severity (ground_truth (buildRunResult now v p G D d)) s of
            None \<Rightarrow> 0 | Some n \<Rightarrow> n)
        = (\<Sum>s\<leftarrow>[Critical, High, Medium, Low, Info]. length (filter (\<lambda>f. severity f = s) G))"
    unfolding look by simp
  then have total: "(\<Sum>s\<leftarrow>[Critical, High, Medium, Low, Info].
          case by_severity (ground_truth (buildRunResult now v p G D d)) s of
            None \<Rightarrow> 0 | Some n \<Rightarrow> n) = length G"
    by (simp only: severity_counts_sum)
  have rest: "gt_total (ground_truth (buildRunResult now v p G D d)) = length G"
    "dd_total (dd_findings (buildRunResult now v p G D d)) = length D"
    "gt_findings (ground_truth (buildRunResult now v p G D d)) = G"
    "dd_found (dd_findings (buildRunResult now v p G D d)) = D"
    by (simp_all add: buildRunResult_def Let_def)
  show ?thesis
    using look total rest by blast
qed

text \<open>
  The theorem at the scenario of the specification: two ground-truth findings (one
  high, one medium) and one DD finding.
\<close>

theorem buildRunResult_counts_witness:
  "gt_total (ground_truth (buildRunResult ''2024-01-01T00:00:00.000Z'' None demoProject
       [groundTruthFinding ''H-01'' High, groundTruthFinding ''M-01'' Medium] [ddFinding] 42)) = 2
   \<and> by_severity (ground_truth (buildRunResult ''2024-01-01T00:00:00.000Z'' None demoProject
       [groundTruthFinding ''H-01'' High, groundTruthFinding ''M-01'' Medium] [ddFinding] 42)) High = Some 1
   \<and> by_severity (ground_truth (buildRunResult ''2024-01-01T00:00:00.000Z'' None demoProject
       [groundTruthFinding ''H-01'' High, groundTruthFinding ''M-01'' Medium] [ddFinding] 42)) Medium = Some 1
   \<and> by_severity (ground_truth (buildRunResult ''2024-01-01T00:00:00.000Z'' None demoProject
       [groundTruthFinding ''H-01'' High, groundTruthFinding ''M-01'' Medium] [ddFinding] 42)) Low = None
   \<and> dd_total (dd_findings (buildRunResult ''2024-01-01T00:00:00.000Z'' None demoProject
       [groundTruthFinding ''H-01'' High, groundTruthFinding ''M-01'' Medium] [ddFinding] 42)) = 1"
  using buildRunResult_counts[of "''2024-01-01T00:00:00.000Z''" None demoProject
      "[groundTruthFinding ''H-01'' High, groundTruthFinding ''M-01'' Medium]" "[ddFinding]" 42]
  by (simp add: groundTruthFinding_def)

section \<open>The polling loop\<close>

lemma pollOnce_spent:
  "spent_ms (pollOnce ps pollCount lastStatus) \<le> status_ms ps + messages_ms ps"
  by (simp add: pollOnce_def Let_def split: Response.splits)

lemma pollOnce_wait_at_most:
  "step (pollOnce ps pollCount lastStatus) = Wait ms \<Longrightarrow> ms \<le> 15000"
  by (auto simp: pollOnce_def idleWithoutReply_def Let_def split: Response.splits if_splits)

lemma pollOnce_throws_only_on_rejection:
  assumes "step (pollOnce ps pollCount lastStatus) = Throw e"
  shows "status_response ps = Rejected e \<or> messages_response ps = Rejected e"
  using assms
  by (auto simp: pollOnce_def idleWithoutReply_def Let_def split: Response.splits if_splits)

lemma pollOnce_keyword:
  assumes "status_response ps = HttpOk sd" and "session_status sd = ''idle''"
    and "runningId sd = None" and "messages_response ps = HttpOk msgs"
    and "filter (\<lambda>m. role m = ''assistant'') msgs \<noteq> []"
    and "analysisPerformed (messageText (last (filter (\<lambda>m. role m = ''assistant'') msgs)))"
    and "\<not> (pollCount < 6
            \<and> needsMoreInfo (messageText (last (filter (\<lambda>m. role m = ''assistant'') msgs))))"
  shows "step (pollOnce ps pollCount lastStatus) = Done
         \<and> spent_ms (pollOnce ps pollCount lastStatus) = status_ms ps + messages_ms ps"
  using assms by (simp add: pollOnce_def Let_def)

lemma pollOnce_early_question:
  assumes "status_response ps = HttpOk sd" and "session_status sd = ''idle''"
    and "runningId sd = None" and "messages_response ps = HttpOk msgs"
    and "filter (\<lambda>m. role m = ''assistant'') msgs \<noteq> []"
    and "pollCount < 6"
    and "needsMoreInfo (messageText (last (filter (\<lambda>m. role m = ''assistant'') msgs)))"
  shows "pollOnce ps pollCount lastStatus =
           \<lparr> step = Wait 15000, spent_ms = status_ms ps + messages_ms ps,
             newStatus = ''idle:none'',
             printed = (if ''idle:none'' \<noteq> lastStatus then [SessionStatus ''idle'' ''none'']
                        else []) @ [AgentNeedsMoreInfo] \<rparr>"
  using assms by (simp add: pollOnce_def Let_def)

lemma pollLoop_bound:
  "\<forall>k. status_ms (script k) + messages_ms (script k) \<le> L \<Longrightarrow>
   elapsed < limit + 15000 + L \<Longrightarrow>
   elapsed_ms (pollLoop script limit elapsed pollCount lastStatus out) < limit + 15000 + L"
proof (induction script limit elapsed pollCount lastStatus out rule: pollLoop.induct)
  case (1 script limit elapsed pollCount lastStatus out)
  let ?r = "pollOnce (script (Suc pollCount)) (Suc pollCount) lastStatus"
  show ?case
  proof (cases "elapsed < limit")
    case False
    then show ?thesis using "1.prems" by (simp add: pollLoop.simps)
  next
    case True
    have "status_ms (script (Suc pollCount)) + messages_ms (script (Suc pollCount)) \<le> L"
      using "1.prems"(1) by blast
    then have sp: "spent_ms ?r \<le> L"
      using pollOnce_spent[of "script (Suc pollCount)" "Suc pollCount" lastStatus]
      by linarith
    show ?thesis
    proof (cases "step ?r")
      case (Wait ms)
      have "ms \<le> 15000" using Wait pollOnce_wait_at_most by blast
      then have lt: "elapsed + spent_ms ?r + ms < limit + 15000 + L"
        using True sp by linarith
      have "elapsed_ms (pollLoop script limit (elapsed + spent_ms ?r + ms) (Suc pollCount)
                 (newStatus ?r) (out @ printed ?r)) < limit + 15000 + L"
        using "1.IH"[OF True refl Wait "1.prems"(1) lt] .
      then show ?thesis
        using True Wait by (simp add: pollLoop.simps[of script limit elapsed] Let_def)
    next
      case Done
      then show ?thesis
        using True sp by (simp add: pollLoop.simps[of script limit elapsed] Let_def)
    next
      case (Throw e)
      then show ?thesis
        using True sp by (simp add: pollLoop.simps[of script limit elapsed] Let_def)
    qed
  qed
qed

lemma pollLoop_break_time:
  "\<forall>k. status_ms (script k) + messages_ms (script k) \<le> L \<Longrightarrow>
   ending (pollLoop script limit elapsed pollCount lastStatus out) = Broke \<Longrightarrow>
   elapsed_ms (pollLoop script limit elapsed pollCount lastStatus out) < limit + L"
proof (induction script limit elapsed pollCount lastStatus out rule: pollLoop.induct)
  case (1 script limit elapsed pollCount lastStatus out)
  let ?r = "pollOnce (script (Suc pollCount)) (Suc pollCount) lastStatus"
  show ?case
  proof (cases "elapsed < limit")
    case False
    then show ?thesis using "1.prems" by (simp add: pollLoop.simps)
  next
    case True
    have "status_ms (script (Suc pollCount)) + messages_ms (script (Suc pollCount)) \<le> L"
      using "1.prems"(1) by blast
    then have sp: "spent_ms ?r \<le> L"
      using pollOnce_spent[of "script (Suc pollCount)" "Suc pollCount" lastStatus]
      by linarith
    show ?thesis
    proof (cases "step ?r")
      case (Wait ms)
      have eq: "pollLoop script limit elapsed pollCount lastStatus out =
                pollLoop script limit (elapsed + spent_ms ?r + ms) (Suc pollCount)
                 (newStatus ?r) (out @ printed ?r)"
        using True Wait by (simp add: pollLoop.simps[of script limit elapsed] Let_def)
      show ?thesis
        using "1.IH"[OF True refl Wait "1.prems"(1)] "1.prems"(2) unfolding eq by simp
    next
      case Done
      then show ?thesis
        using True sp by (simp add: pollLoop.simps[of script limit elapsed] Let_def)
    next
      case (Throw e)
      then show ?thesis
        using True "1.prems"(2) by (simp add: pollLoop.simps[of script limit elapsed] Let_def)
    qed
  qed
qed

lemma pollLoop_throws_only_on_rejection:
  "\<forall>k e. status_response (script k) \<noteq> Rejected e \<and> messages_response (script k) \<noteq> Rejected e \<Longrightarrow>
   ending (pollLoop script limit elapsed pollCount lastStatus out) \<noteq> Threw e"
proof (induction script limit elapsed pollCount lastStatus out rule: pollLoop.induct)
  case (1 script limit elapsed pollCount lastStatus out)
  let ?r = "pollOnce (script (Suc pollCount)) (Suc pollCount) lastStatus"
  show ?case
  proof (cases "elapsed < limit")
    case False
    then show ?thesis by (simp add: pollLoop.simps)
  next
    case True
    show ?thesis
    proof (cases "step ?r")
      case (Wait ms)
      then show ?thesis
        using True "1.IH"[OF True refl Wait "1.prems"]
        by (simp add: pollLoop.simps[of script limit elapsed] Let_def)
    next
      case Done
      then show ?thesis
        using True by (simp add: pollLoop.simps[of script limit elapsed] Let_def)
    next
      case (Throw e')
      then show ?thesis
        using "1.prems" pollOnce_throws_only_on_rejection by blast
    qed
  qed
qed

text \<open>
  \<^bold>\<open>C6\<close> (as amended). At the loop test a poll is made only if the elapsed time is
  below the timeout; otherwise the loop ends there, by the timeout, without a poll.
  A poll that observes the session idle with no running id and assistant messages of
  which the most recent holds a completion keyword (slither, aderyn, vulnerabilit,
  finding) ends the loop at once, with no further wait, unless it is one of the first
  five polls and that message holds a request for more information. In that case,
  keyword or not, the loop waits 15 seconds and returns to the loop test. In every case
  the loop ends; when the two requests of a poll take at most \<open>L\<close> milliseconds, it
  ends less than \<open>15000 + L\<close> milliseconds after the timeout (15 seconds is the longest
  wait between two polls), and when it ends by a \<open>break\<close>, less than \<open>L\<close> milliseconds
  after the timeout.
\<close>

theorem polling_stops_on_keyword_and_within_bound:
  "(\<not> elapsed < limit
     \<longrightarrow> pollLoop script limit elapsed pollCount lastStatus out
           = \<lparr> ending = TimedOut, elapsed_ms = elapsed, polls_made = pollCount, console = out \<rparr>)
   \<and> (\<forall>sd msgs. elapsed < limit \<and> status_response (script (Suc pollCount)) = HttpOk sd
       \<and> session_status sd = ''idle'' \<and> runningId sd = None
       \<and> messages_response (script (Suc pollCount)) = HttpOk msgs
       \<and> filter (\<lambda>m. role m = ''assistant'') msgs \<noteq> []
       \<and> analysisPerformed (messageText (last (filter (\<lambda>m. role m = ''assistant'') msgs)))
       \<and> \<not> (Suc pollCount < 6
              \<and> needsMoreInfo (messageText (last (filter (\<lambda>m. role m = ''assistant'') msgs))))
     \<longrightarrow> ending (pollLoop script limit elapsed pollCount lastStatus out) = Broke
         \<and> elapsed_ms (pollLoop script limit elapsed pollCount lastStatus out)
             = elapsed + status_ms (script (Suc pollCount)) + messages_ms (script (Suc pollCount))
         \<and> polls_made (pollLoop script limit elapsed pollCount lastStatus out) = Suc pollCount)
   \<and> (\<forall>sd msgs. elapsed < limit \<and> status_response (script (Suc pollCount)) = HttpOk sd
       \<and> session_status sd = ''idle'' \<and> runningId sd = None
       \<and> messages_response (script (Suc pollCount)) = HttpOk msgs
       \<and> filter (\<lambda>m. role m = ''assistant'') msgs \<noteq> []
       \<and> Suc pollCount < 6
       \<and> needsMoreInfo (messageText (last (filter (\<lambda>m. role m = ''assistant'') msgs)))
     \<longrightarrow> pollLoop script limit elapsed pollCount lastStatus out
           = pollLoop script limit
               (elapsed + status_ms (script (Suc pollCount)) + messages_ms (script (Suc pollCount))
                  + 15000)
               (Suc pollCount) ''idle:none''
               (out @ (if ''idle:none'' \<noteq> lastStatus then [SessionStatus ''idle'' ''none''] else [])
                    @ [AgentNeedsMoreInfo]))
   \<and> (\<forall>L. (\<forall>k. status_ms (polls b k) + messages_ms (polls b k) \<le> L)
     \<longrightarrow> elapsed_ms (waitForCompletion b limit) < limit + 15000 + L
         \<and> (ending (waitForCompletion b limit) = Broke
              \<longrightarrow> elapsed_ms (waitForCompletion b limit) < limit + L))"
proof -
  have t: "pollLoop script limit elapsed pollCount lastStatus out
           = \<lparr> ending = TimedOut, elapsed_ms = elapsed, polls_made = pollCount, console = out \<rparr>"
    if "\<not> elapsed < limit"
    using that by (simp add: pollLoop.simps[of script limit elapsed])
  have a: "ending (pollLoop script limit elapsed pollCount lastStatus out) = Broke
         \<and> elapsed_ms (pollLoop script limit elapsed pollCount lastStatus out)
             = elapsed + status_ms (script (Suc pollCount)) + messages_ms (script (Suc pollCount))
         \<and> polls_made (pollLoop script limit elapsed pollCount lastStatus out) = Suc pollCount"
    if "elapsed < limit" and "status_response (script (Suc pollCount)) = HttpOk sd"
      and "session_status sd = ''idle''" and "runningId sd = None"
      and "messages_response (script (Suc pollCount)) = HttpOk msgs"
      and "filter (\<lambda>m. role m = ''assistant'') msgs \<noteq> []"
      and "analysisPerformed (messageText (last (filter (\<lambda>m. role m = ''assistant'') msgs)))"
      and "\<not> (Suc pollCount < 6
              \<and> needsMoreInfo (messageText (last (filter (\<lambda>m. role m = ''assistant'') msgs))))"
    for sd msgs
    using pollOnce_keyword[OF that(2-8), of lastStatus] that(1)
    by (simp add: pollLoop.simps[of script limit elapsed] Let_def)
  have q: "pollLoop script limit elapsed pollCount lastStatus out
           = pollLoop script limit
               (elapsed + status_ms (script (Suc pollCount)) + messages_ms (script (Suc pollCount))
                  + 15000)
               (Suc pollCount) ''idle:none''
               (out @ (if ''idle:none'' \<noteq> lastStatus then [SessionStatus ''idle'' ''none''] else [])
                    @ [AgentNeedsMoreInfo])"
    if "elapsed < limit" and "status_response (script (Suc pollCount)) = HttpOk sd"
      and "session_status sd = ''idle''" and "runningId sd = None"
      and "messages_response (script (Suc pollCount)) = HttpOk msgs"
      and "filter (\<lambda>m. role m = ''assistant'') msgs \<noteq> []"
      and "Suc pollCount < 6"
      and "needsMoreInfo (messageText (last (filter (\<lambda>m. role m = ''assistant'') msgs)))"
    for sd msgs
    using pollOnce_early_question[OF that(2-8), of lastStatus] that(1)
    by (simp add: pollLoop.simps[of script limit elapsed] Let_def add.assoc)
  have b: "elapsed_ms (waitForCompletion b limit) < limit + 15000 + L"
    if "\<forall>k. status_ms (polls b k) + messages_ms (polls b k) \<le> L" for L
    unfolding waitForCompletion_def using pollLoop_bound[OF that, of 10000 limit 0 "[]" "[]"] by simp
  have c: "elapsed_ms (waitForCompletion b limit) < limit + L"
    if "\<forall>k. status_ms (polls b k) + messages_ms (polls b k) \<le> L"
      and "ending (waitForCompletion b limit) = Broke" for L
    using pollLoop_break_time[OF that(1), of limit 10000 0 "[]" "[]"] that(2)
    unfolding waitForCompletion_def by blast
  show ?thesis
    apply (intro conjI allI impI)
    subgoal using t by blast
    subgoal using a by blast
    subgoal using a by blast
    subgoal using a by blast
    subgoal using q by blast
    subgoal using b by blast
    subgoal using c by blast
    done
qed

lemmas polling_eval =
  waitForCompletion_def pollLoop.simps pollOnce_def idleWithoutReply_def Let_def messageText_def
  needsMoreInfo_def analysisPerformed_def toLowerCase_def toLowerChar_def startsWith_def
  char_of_eq_iff

lemmas backend_examples =
  healthyBackend_def idlePoll_def runningPoll_def statusDownPoll_def userMessage_def
  agentMessage_def

text \<open>
  The theorem at the healthy backend, whose first poll (ten seconds after the start, with
  a timeout of twenty) shows an assistant message that mentions slither; and at the
  backend whose agent asks for the repository URL, where the first poll is followed by
  a wait of 15 seconds and the loop test at 25 seconds ends the loop without a poll.
\<close>

theorem polling_stops_on_keyword_and_within_bound_witness:
  "(10000::nat) < 20000
   \<and> status_response (polls healthyBackend (Suc 0))
       = HttpOk \<lparr> session_status = ''idle'', runningId = None \<rparr>
   \<and> messages_response (polls healthyBackend (Suc 0))
       = HttpOk [userMessage, agentMessage ''Ran slither: 1 issue'']
   \<and> analysisPerformed (messageText (last (filter (\<lambda>m. role m = ''assistant'')
         [userMessage, agentMessage ''Ran slither: 1 issue''])))
   \<and> ending (pollLoop (polls healthyBackend) 20000 10000 0 [] []) = Broke
   \<and> elapsed_ms (pollLoop (polls healthyBackend) 20000 10000 0 [] []) = 10000
   \<and> (\<forall>k. status_ms (polls healthyBackend k) + messages_ms (polls healthyBackend k) \<le> 0)
   \<and> elapsed_ms (waitForCompletion healthyBackend 20000) < 20000 + 15000 + 0
   \<and> needsMoreInfo (messageText (last (filter (\<lambda>m. role m = ''assistant'')
         [userMessage,
          agentMessage ''Could you please provide the repository URL? I will then run slither.''])))
   \<and> pollLoop (polls askingBackend) 20000 10000 0 [] []
       = pollLoop (polls askingBackend) 20000 25000 (Suc 0) ''idle:none''
           [SessionStatus ''idle'' ''none'', AgentNeedsMoreInfo]
   \<and> \<not> (25000::nat) < 20000
   \<and> pollLoop (polls askingBackend) 20000 25000 (Suc 0) ''idle:none''
         [SessionStatus ''idle'' ''none'', AgentNeedsMoreInfo]
       = \<lparr> ending = TimedOut, elapsed_ms = 25000, polls_made = Suc 0,
           console = [SessionStatus ''idle'' ''none'', AgentNeedsMoreInfo] \<rparr>"
proof -
  let ?sd = "\<lparr> session_status = ''idle'', runningId = None \<rparr>"
  let ?msgs = "[userMessage, agentMessage ''Ran slither: 1 issue'']"
  let ?asks = "[userMessage,
     agentMessage ''Could you please provide the repository URL? I will then run slither.'']"
  have s: "status_response (polls healthyBackend (Suc 0)) = HttpOk ?sd"
    and m: "messages_response (polls healthyBackend (Suc 0)) = HttpOk ?msgs"
    and z: "status_ms (polls healthyBackend (Suc 0)) = 0" "messages_ms (polls healthyBackend (Suc 0)) = 0"
    by (simp_all add: healthyBackend_def idlePoll_def)
  have f: "filter (\<lambda>m. role m = ''assistant'') ?msgs \<noteq> []"
    by (simp add: agentMessage_def)
  have a: "analysisPerformed (messageText (last (filter (\<lambda>m. role m = ''assistant'') ?msgs)))"
    by (simp add: polling_eval backend_examples)
  have n: "\<not> (Suc 0 < 6 \<and> needsMoreInfo (messageText (last (filter (\<lambda>m. role m = ''assistant'') ?msgs))))"
    by (simp add: polling_eval backend_examples)
  have l: "\<forall>k. status_ms (polls healthyBackend k) + messages_ms (polls healthyBackend k) \<le> 0"
    by (simp add: healthyBackend_def idlePoll_def)
  have i: "session_status ?sd = ''idle''" "runningId ?sd = None"
    by simp_all
  have l0: "(10000::nat) < 20000" by simp
  have pre: "10000 < (20000::nat) \<and> status_response (polls healthyBackend (Suc 0)) = HttpOk ?sd
       \<and> session_status ?sd = ''idle'' \<and> runningId ?sd = None
       \<and> messages_response (polls healthyBackend (Suc 0)) = HttpOk ?msgs
       \<and> filter (\<lambda>m. role m = ''assistant'') ?msgs \<noteq> []
       \<and> analysisPerformed (messageText (last (filter (\<lambda>m. role m = ''assistant'') ?msgs)))
       \<and> \<not> (Suc 0 < 6
              \<and> needsMoreInfo (messageText (last (filter (\<lambda>m. role m = ''assistant'') ?msgs))))"
    using l0 s i m f a n by blast
  note T = polling_stops_on_keyword_and_within_bound
         [of 10000 20000 "polls healthyBackend" 0 "[]" "[]" healthyBackend]
  have A: "ending (pollLoop (polls healthyBackend) 20000 10000 0 [] []) = Broke
        \<and> elapsed_ms (pollLoop (polls healthyBackend) 20000 10000 0 [] [])
            = 10000 + status_ms (polls healthyBackend (Suc 0)) + messages_ms (polls healthyBackend (Suc 0))
        \<and> polls_made (pollLoop (polls healthyBackend) 20000 10000 0 [] []) = Suc 0"
    by (rule T[THEN conjunct2, THEN conjunct1, rule_format, OF pre])
  have B: "elapsed_ms (waitForCompletion healthyBackend 20000) < 20000 + 15000 + 0"
    by (rule T[THEN conjunct2, THEN conjunct2, THEN conjunct2, rule_format, OF l[rule_format],
               THEN conjunct1])
  have e: "elapsed_ms (pollLoop (polls healthyBackend) 20000 10000 0 [] []) = 10000"
    using A unfolding z by simp
  have s': "status_response (polls askingBackend (Suc 0)) = HttpOk ?sd"
    and m': "messages_response (polls askingBackend (Suc 0)) = HttpOk ?asks"
    and z': "status_ms (polls askingBackend (Suc 0)) = 0" "messages_ms (polls askingBackend (Suc 0)) = 0"
    by (simp_all add: askingBackend_def idlePoll_def)
  have f': "filter (\<lambda>m. role m = ''assistant'') ?asks \<noteq> []"
    by (simp add: agentMessage_def)
  have q: "needsMoreInfo (messageText (last (filter (\<lambda>m. role m = ''assistant'') ?asks)))"
    by (simp add: polling_eval backend_examples)
  have five: "Suc 0 < 6" by simp
  have pre': "10000 < (20000::nat) \<and> status_response (polls askingBackend (Suc 0)) = HttpOk ?sd
       \<and> session_status ?sd = ''idle'' \<and> runningId ?sd = None
       \<and> messages_response (polls askingBackend (Suc 0)) = HttpOk ?asks
       \<and> filter (\<lambda>m. role m = ''assistant'') ?asks \<noteq> []
       \<and> Suc 0 < 6
       \<and> needsMoreInfo (messageText (last (filter (\<lambda>m. role m = ''assistant'') ?asks)))"
    using l0 s' i m' f' five q by blast
  note U = polling_stops_on_keyword_and_within_bound
         [of 10000 20000 "polls askingBackend" 0 "[]" "[]" askingBackend]
  have Q0: "pollLoop (polls askingBackend) 20000 10000 0 [] []
      = pollLoop (polls askingBackend) 20000
          (10000 + status_ms (polls askingBackend (Suc 0)) + messages_ms (polls askingBackend (Suc 0))
             + 15000)
          (Suc 0) ''idle:none''
          ([] @ (if ''idle:none'' \<noteq> [] then [SessionStatus ''idle'' ''none''] else [])
              @ [AgentNeedsMoreInfo])"
    by (rule U[THEN conjunct2, THEN conjunct2, THEN conjunct1, rule_format, OF pre'])
  have Q: "pollLoop (polls askingBackend) 20000 10000 0 [] []
      = pollLoop (polls askingBackend) 20000 25000 (Suc 0) ''idle:none''
          [SessionStatus ''idle'' ''none'', AgentNeedsMoreInfo]"
    using Q0 unfolding z' by simp
  have late: "\<not> (25000::nat) < 20000" by simp
  note V = polling_stops_on_keyword_and_within_bound
         [of 25000 20000 "polls askingBackend" "Suc 0" "''idle:none''"
             "[SessionStatus ''idle'' ''none'', AgentNeedsMoreInfo]" askingBackend]
  have E: "pollLoop (polls askingBackend) 20000 25000 (Suc 0) ''idle:none''
         [SessionStatus ''idle'' ''none'', AgentNeedsMoreInfo]
       = \<lparr> ending = TimedOut, elapsed_ms = 25000, polls_made = Suc 0,
           console = [SessionStatus ''idle'' ''none'', AgentNeedsMoreInfo] \<rparr>"
    by (rule V[THEN conjunct1, rule_format, OF late])
  show ?thesis
    using l0 s m a A e l B q Q late E by blast
qed

text \<open>
  As the specification states it, the property fails when the message with the keyword also asks for the
  repository URL during the first five polls. With a timeout of 20 seconds the first poll
  (at 10 seconds) observes the session idle with such a message; the loop waits 15
  seconds and ends by the timeout at 25 seconds, after that one poll.
\<close>

theorem early_question_counterexample:
  "status_response (polls askingBackend 1) = HttpOk \<lparr> session_status = ''idle'', runningId = None \<rparr>
   \<and> messages_response (polls askingBackend 1)
       = HttpOk [userMessage,
           agentMessage ''Could you please provide the repository URL? I will then run slither.'']
   \<and> includes_str (toLowerCase (messageText
         (agentMessage ''Could you please provide the repository URL? I will then run slither.'')))
         ''slither''
   \<and> ending (waitForCompletion askingBackend 20000) = TimedOut
   \<and> polls_made (waitForCompletion askingBackend 20000) = 1
   \<and> elapsed_ms (waitForCompletion askingBackend 20000) = 25000
   \<and> \<not> elapsed_ms (waitForCompletion askingBackend 20000) < 20000"
proof -
  have p: "status_response (polls askingBackend 1) = HttpOk \<lparr> session_status = ''idle'', runningId = None \<rparr>"
    "messages_response (polls askingBackend 1)
       = HttpOk [userMessage,
           agentMessage ''Could you please provide the repository URL? I will then run slither.'']"
    by (simp_all add: askingBackend_def idlePoll_def)
  have k: "includes_str (toLowerCase (messageText
         (agentMessage ''Could you please provide the repository URL? I will then run slither.'')))
         ''slither''"
    by (simp add: polling_eval backend_examples)
  have w: "waitForCompletion askingBackend 20000 =
      \<lparr> ending = TimedOut, elapsed_ms = 25000, polls_made = 1,
        console = [SessionStatus ''idle'' ''none'', AgentNeedsMoreInfo] \<rparr>"
    by (simp add: polling_eval backend_examples askingBackend_def)
  show ?thesis
    unfolding w using p k by simp
qed

text \<open>
  \<^bold>\<open>C9\<close>. A response of the status endpoint that is not \<open>ok\<close> does not end the wait:
  the loop prints the warning, waits five seconds and goes on with the next poll; and as
  long as no request is rejected outright, the loop never ends with an error, whatever
  the status endpoint answers.
\<close>

theorem status_failure_is_tolerated:
  "(\<forall>c st t. elapsed < limit \<and> status_response (script (Suc pollCount)) = HttpError c st t
      \<longrightarrow> pollLoop script limit elapsed pollCount lastStatus out =
          pollLoop script limit (elapsed + status_ms (script (Suc pollCount)) + 5000)
            (Suc pollCount) lastStatus (out @ [StatusCheckFailed]))
   \<and> ((\<forall>k e. status_response (script k) \<noteq> Rejected e \<and> messages_response (script k) \<noteq> Rejected e)
      \<longrightarrow> (\<forall>e. ending (pollLoop script limit elapsed pollCount lastStatus out) \<noteq> Threw e))"
proof -
  have a: "pollLoop script limit elapsed pollCount lastStatus out =
          pollLoop script limit (elapsed + status_ms (script (Suc pollCount)) + 5000)
            (Suc pollCount) lastStatus (out @ [StatusCheckFailed])"
    if "elapsed < limit" and "status_response (script (Suc pollCount)) = HttpError c st t"
    for c st t
    using that by (simp add: pollLoop.simps[of script limit elapsed] pollOnce_def Let_def)
  show ?thesis
    using a pollLoop_throws_only_on_rejection[of script limit elapsed pollCount lastStatus out]
    by blast
qed

text \<open>
  The theorem at the backend whose first status check answers HTTP 502: the loop goes
  on, and ends at the second poll by a \<open>break\<close>.
\<close>

theorem status_failure_is_tolerated_witness:
  "(10000::nat) < 20000
   \<and> status_response (polls flakyBackend (Suc 0)) = HttpError 502 ''Bad Gateway'' ''upstream''
   \<and> pollLoop (polls flakyBackend) 20000 10000 0 [] [] =
       pollLoop (polls flakyBackend) 20000 (10000 + status_ms (polls flakyBackend (Suc 0)) + 5000)
         (Suc 0) [] ([] @ [StatusCheckFailed])
   \<and> ending (waitForCompletion flakyBackend 20000) = Broke
   \<and> console (waitForCompletion flakyBackend 20000)
       = [StatusCheckFailed, SessionStatus ''idle'' ''none'', SessionCompleted 1]"
proof -
  have s: "status_response (polls flakyBackend (Suc 0)) = HttpError 502 ''Bad Gateway'' ''upstream''"
    by (simp add: flakyBackend_def statusDownPoll_def runningPoll_def)
  have l: "(10000::nat) < 20000" by simp
  from status_failure_is_tolerated[of 10000 20000 "polls flakyBackend" 0 "[]" "[]"] s l
  have e: "pollLoop (polls flakyBackend) 20000 10000 0 [] [] =
       pollLoop (polls flakyBackend) 20000 (10000 + status_ms (polls flakyBackend (Suc 0)) + 5000)
         (Suc 0) [] ([] @ [StatusCheckFailed])"
    by blast
  have w: "waitForCompletion flakyBackend 20000 =
      \<lparr> ending = Broke, elapsed_ms = 15000, polls_made = 2,
        console = [StatusCheckFailed, SessionStatus ''idle'' ''none'', SessionCompleted 1] \<rparr>"
    by (simp add: polling_eval backend_examples flakyBackend_def)
  show ?thesis
    using s l e unfolding w by simp
qed

section \<open>The audit of one project\<close>

lemma sendMessage_timeout_without_reply:
  assumes "chatStream_response b = HttpOk started"
    and "ending (waitForCompletion b (timeout (config r))) = TimedOut"
    and "finalMessages_response b = HttpOk msgs"
    and "filter (\<lambda>m. role m = ''assistant'') msgs = []"
  shows "sendMessage b r = (Inr [], r\<lparr>lastSessionLogs := msgs\<rparr>)"
  using assms by (simp add: sendMessage_def fullResponse_def)

text \<open>
  \<^bold>\<open>C7\<close>. The instruction was dispatched, the polling loop ended by the timeout, and the
  message history fetched after the loop holds no assistant message. Then \<open>sendMessage\<close>
  returns the empty text and does not throw; and \<open>runAudit\<close>, whose first three steps
  succeeded, goes on to the finding retrieval: it returns what
  \<open>getFindingsFromProject\<close> returns (which may be the empty list) and writes the
  findings file.
\<close>

theorem timeout_without_reply_returns_empty_text:
  assumes "chatStream_response b = HttpOk started"
    and "ending (waitForCompletion b (timeout (config r))) = TimedOut"
    and "finalMessages_response b = HttpOk msgs"
    and "filter (\<lambda>m. role m = ''assistant'') msgs = []"
  shows "sendMessage b r = (Inr [], r\<lparr>lastSessionLogs := msgs\<rparr>)
         \<and> (\<forall>w p projectId info sessionId.
               b = backends w (audits_started w) p
               \<and> createProject_response b = HttpOk projectId
               \<and> ensureContainer_response b = HttpOk info
               \<and> createSession_response b = HttpOk sessionId
             \<longrightarrow> fst (AuditRunner_runAudit p (w, r)) = Inr (getFindingsFromProject b)
                 \<and> files (fst (snd (AuditRunner_runAudit p (w, r)))) =
                     files w @ [([outputDir r, ''runs'', name p,
                                   ''findings-'' @ fileStamp (isoNow w) @ ''.json''],
                                 FindingsJson (getFindingsFromProject b))]
                 \<and> lastSessionLogs (snd (snd (AuditRunner_runAudit p (w, r)))) = msgs)"
proof -
  have s: "sendMessage b r' = (Inr [], r'\<lparr>lastSessionLogs := msgs\<rparr>)" if "config r' = config r" for r'
    using sendMessage_timeout_without_reply[OF assms(1) _ assms(3,4), of r'] assms(2) that
    by simp
  have run: "fst (AuditRunner_runAudit p (w, r)) = Inr (getFindingsFromProject b)
             \<and> files (fst (snd (AuditRunner_runAudit p (w, r)))) =
                 files w @ [([outputDir r, ''runs'', name p,
                               ''findings-'' @ fileStamp (isoNow w) @ ''.json''],
                             FindingsJson (getFindingsFromProject b))]
             \<and> lastSessionLogs (snd (snd (AuditRunner_runAudit p (w, r)))) = msgs"
    if "b = backends w (audits_started w) p" and "createProject_response b = HttpOk projectId"
      and "ensureContainer_response b = HttpOk info" and "createSession_response b = HttpOk sessionId"
    for w p projectId info sessionId
  proof -
    have "sendMessage b (r\<lparr>lastSessionLogs := []\<rparr>)
            = (Inr [], r\<lparr>lastSessionLogs := [], lastSessionLogs := msgs\<rparr>)"
      using s[of "r\<lparr>lastSessionLogs := []\<rparr>"] by simp
    then show ?thesis
      using that by (simp add: AuditRunner_runAudit_def Let_def saveResults_def)
  qed
  show ?thesis
    using s[of r] run by blast
qed

text \<open>
  The theorem at the backend whose session is running at every poll and never answers,
  with a timeout of twenty seconds.
\<close>

theorem timeout_without_reply_returns_empty_text_witness:
  "chatStream_response silentBackend = HttpOk ''run-1''
   \<and> ending (waitForCompletion silentBackend (timeout (config newAuditRunner))) = TimedOut
   \<and> finalMessages_response silentBackend = HttpOk [userMessage]
   \<and> filter (\<lambda>m. role m = ''assistant'') [userMessage] = []
   \<and> sendMessage silentBackend newAuditRunner
       = (Inr [], newAuditRunner\<lparr>lastSessionLogs := [userMessage]\<rparr>)
   \<and> fst (AuditRunner_runAudit demoProject (worldWith silentBackend, newAuditRunner)) = Inr []"
proof -
  have c: "chatStream_response silentBackend = HttpOk ''run-1''"
    and f: "finalMessages_response silentBackend = HttpOk [userMessage]"
    and o: "createProject_response silentBackend = HttpOk ''proj-1''"
      "ensureContainer_response silentBackend
         = HttpOk \<lparr> containerId = ''c-1'', wasCreated = True, wasRestarted = False \<rparr>"
      "createSession_response silentBackend = HttpOk ''sess-1''"
    and g: "getFindingsFromProject silentBackend = []"
    by (simp_all add: silentBackend_def healthyBackend_def getFindingsFromProject_def)
  have t: "ending (waitForCompletion silentBackend (timeout (config newAuditRunner))) = TimedOut"
    by (simp add: polling_eval backend_examples silentBackend_def newAuditRunner_def)
  have n: "filter (\<lambda>m. role m = ''assistant'') [userMessage] = []"
    by (simp add: userMessage_def)
  have b: "silentBackend = backends (worldWith silentBackend) (audits_started (worldWith silentBackend)) demoProject"
    by (simp add: worldWith_def)
  from timeout_without_reply_returns_empty_text[OF c t f n] b o
  have "sendMessage silentBackend newAuditRunner
          = (Inr [], newAuditRunner\<lparr>lastSessionLogs := [userMessage]\<rparr>)"
    and "fst (AuditRunner_runAudit demoProject (worldWith silentBackend, newAuditRunner))
          = Inr (getFindingsFromProject silentBackend)"
    by blast+
  then show ?thesis
    using c t f n g by simp
qed

lemma sendMessage_keeps_config:
  "outputDir (snd (sendMessage b r)) = outputDir r \<and> config (snd (sendMessage b r)) = config r"
  by (simp add: sendMessage_def split: Response.splits PollEnding.splits)

lemma sendMessage_final_fetch_fails:
  assumes "chatStream_response b = HttpOk started"
    and "\<forall>e. ending (waitForCompletion b (timeout (config r))) \<noteq> Threw e"
    and "finalMessages_response b = HttpError c st t"
  shows "sendMessage b r = (Inl ''Failed to get messages'', r)"
  using assms by (simp add: sendMessage_def split: PollEnding.splits)

lemma runAudit_error_writes_nothing:
  "fst (AuditRunner_runAudit p wr) = Inl e \<Longrightarrow>
   files (fst (snd (AuditRunner_runAudit p wr))) = files (fst wr)"
  by (auto simp: AuditRunner_runAudit_def Let_def split: Response.splits sum.splits prod.splits)

lemma world_runProject:
  "snd (runProject env p sw) = snd (runAudit env p (snd sw))"
  by (simp add: runProject_def Let_def)

lemma emitted_runProject_failure:
  assumes "fst (runAudit env p (snd sw)) = Inl message"
  shows "emitted (fst (runProject env p sw)) =
           emitted (fst sw) @ [ProjectStarted (name p) (clock env (snd sw)),
                               ErrorEvent message (Some (name p)),
                               CheckpointSaved (checkpoint (fst (runProject env p sw)))]"
  using assms by (simp add: runProject_def Let_def saveCheckpoint_def emit_def stop_def)

text \<open>
  \<^bold>\<open>C2\<close> (as amended). In the audit of a project, a response that is not \<open>ok\<close> to the
  project creation, the container readiness call, the session creation, the instruction
  dispatch, or the message fetch that ends the completion wait throws an error that
  ends \<open>runAudit\<close>; whenever \<open>runAudit\<close> throws, no findings file is written. A response
  that is not \<open>ok\<close> to the finding retrieval does not throw: the findings are the empty
  list, which is written to the findings file and returned. In particular, when the
  container readiness call fails for a project the scheduler loop reaches, the project
  is appended to \<open>failedProjects\<close> and not to \<open>completedProjects\<close>, the only events are
  the start, the error and the saved checkpoint, and no file is written.
\<close>

theorem http_failure_aborts_the_audit:
  assumes "b = backends w (audits_started w) p"
  shows "(\<forall>c st t. createProject_response b = HttpError c st t \<longrightarrow>
            fst (AuditRunner_runAudit p (w, r))
              = Inl (''Failed to create project: '' @ decimal c @ '' '' @ t))
       \<and> (\<forall>i c st t. createProject_response b = HttpOk i
            \<and> ensureContainer_response b = HttpError c st t \<longrightarrow>
            fst (AuditRunner_runAudit p (w, r))
              = Inl (''Failed to ensure container: '' @ decimal c @ '' '' @ t))
       \<and> (\<forall>i info c st t. createProject_response b = HttpOk i
            \<and> ensureContainer_response b = HttpOk info
            \<and> createSession_response b = HttpError c st t \<longrightarrow>
            fst (AuditRunner_runAudit p (w, r)) = Inl (''Failed to create session: '' @ st))
       \<and> (\<forall>i info sessionId c st t. createProject_response b = HttpOk i
            \<and> ensureContainer_response b = HttpOk info
            \<and> createSession_response b = HttpOk sessionId
            \<and> chatStream_response b = HttpError c st t \<longrightarrow>
            fst (AuditRunner_runAudit p (w, r))
              = Inl (''Failed to start chat: '' @ decimal c @ '' '' @ t))
       \<and> (\<forall>i info sessionId started c st t. createProject_response b = HttpOk i
            \<and> ensureContainer_response b = HttpOk info
            \<and> createSession_response b = HttpOk sessionId
            \<and> chatStream_response b = HttpOk started
            \<and> (\<forall>e. ending (waitForCompletion b (timeout (config r))) \<noteq> Threw e)
            \<and> finalMessages_response b = HttpError c st t \<longrightarrow>
            fst (AuditRunner_runAudit p (w, r)) = Inl ''Failed to get messages'')
       \<and> (\<forall>e. fst (AuditRunner_runAudit p (w, r)) = Inl e \<longrightarrow>
            files (fst (snd (AuditRunner_runAudit p (w, r)))) = files w)
       \<and> (\<forall>i info sessionId response c st t. createProject_response b = HttpOk i
            \<and> ensureContainer_response b = HttpOk info
            \<and> createSession_response b = HttpOk sessionId
            \<and> fst (sendMessage b (r\<lparr>lastSessionLogs := []\<rparr>)) = Inr response
            \<and> findings_response b = HttpError c st t \<longrightarrow>
            fst (AuditRunner_runAudit p (w, r)) = Inr []
            \<and> files (fst (snd (AuditRunner_runAudit p (w, r)))) =
                files w @ [([outputDir r, ''runs'', name p,
                              ''findings-'' @ fileStamp (isoNow w) @ ''.json''], FindingsJson [])])
       \<and> (\<forall>s g i c st t. \<not> shouldStop s
            \<and> name p \<notin> set (completedProjects (checkpoint s))
            \<and> groundTruths w p = Inr g
            \<and> createProject_response b = HttpOk i
            \<and> ensureContainer_response b = HttpError c st t \<longrightarrow>
            failedProjects (checkpoint (fst (runBenchmark ExtendedScheduler [p] (s, w, r))))
              = failedProjects (checkpoint s) @ [name p]
            \<and> completedProjects (checkpoint (fst (runBenchmark ExtendedScheduler [p] (s, w, r))))
              = completedProjects (checkpoint s)
            \<and> emitted (fst (runBenchmark ExtendedScheduler [p] (s, w, r)))
              = emitted s @ [ProjectStarted (name p) (isoNow w),
                             ErrorEvent (''Failed to ensure container: '' @ decimal c @ '' '' @ t)
                               (Some (name p)),
                             CheckpointSaved
                               (checkpoint (fst (runBenchmark ExtendedScheduler [p] (s, w, r))))]
            \<and> files (fst (snd (runBenchmark ExtendedScheduler [p] (s, w, r)))) = files w)"
proof -
  have b': "backends w (audits_started w) p = b"
    using assms by simp
  have s1: "fst (AuditRunner_runAudit p (w, r))
              = Inl (''Failed to create project: '' @ decimal c @ '' '' @ t)"
    if "createProject_response b = HttpError c st t" for c st t
    using that by (simp add: AuditRunner_runAudit_def Let_def b')
  have s2: "fst (AuditRunner_runAudit p (w, r))
              = Inl (''Failed to ensure container: '' @ decimal c @ '' '' @ t)"
    if "createProject_response b = HttpOk i" "ensureContainer_response b = HttpError c st t"
    for i c st t
    using that by (simp add: AuditRunner_runAudit_def Let_def b')
  have s3: "fst (AuditRunner_runAudit p (w, r)) = Inl (''Failed to create session: '' @ st)"
    if "createProject_response b = HttpOk i" "ensureContainer_response b = HttpOk info"
      "createSession_response b = HttpError c st t"
    for i info c st t
    using that by (simp add: AuditRunner_runAudit_def Let_def b')
  have s4: "fst (AuditRunner_runAudit p (w, r))
              = Inl (''Failed to start chat: '' @ decimal c @ '' '' @ t)"
    if "createProject_response b = HttpOk i" "ensureContainer_response b = HttpOk info"
      "createSession_response b = HttpOk sessionId" "chatStream_response b = HttpError c st t"
    for i info sessionId c st t
    using that by (simp add: AuditRunner_runAudit_def Let_def b' sendMessage_def)
  have s5: "fst (AuditRunner_runAudit p (w, r)) = Inl ''Failed to get messages''"
    if "createProject_response b = HttpOk i" "ensureContainer_response b = HttpOk info"
      "createSession_response b = HttpOk sessionId" "chatStream_response b = HttpOk started"
      "\<forall>e. ending (waitForCompletion b (timeout (config r))) \<noteq> Threw e"
      "finalMessages_response b = HttpError c st t"
    for i info sessionId started c st t
  proof -
    have "sendMessage b (r\<lparr>lastSessionLogs := []\<rparr>)
            = (Inl ''Failed to get messages'', r\<lparr>lastSessionLogs := []\<rparr>)"
      using sendMessage_final_fetch_fails[OF that(4) _ that(6), of "r\<lparr>lastSessionLogs := []\<rparr>"]
        that(5) by simp
    then show ?thesis
      using that(1-3) by (simp add: AuditRunner_runAudit_def Let_def b')
  qed
  have s6: "files (fst (snd (AuditRunner_runAudit p (w, r)))) = files w"
    if "fst (AuditRunner_runAudit p (w, r)) = Inl e" for e
    using runAudit_error_writes_nothing[OF that] by simp
  have s7: "fst (AuditRunner_runAudit p (w, r)) = Inr []
            \<and> files (fst (snd (AuditRunner_runAudit p (w, r)))) =
                files w @ [([outputDir r, ''runs'', name p,
                              ''findings-'' @ fileStamp (isoNow w) @ ''.json''], FindingsJson [])]"
    if "createProject_response b = HttpOk i" "ensureContainer_response b = HttpOk info"
      "createSession_response b = HttpOk sessionId"
      "fst (sendMessage b (r\<lparr>lastSessionLogs := []\<rparr>)) = Inr response"
      "findings_response b = HttpError c st t"
    for i info sessionId response c st t
  proof -
    note h = that
    obtain r' where r': "sendMessage b (r\<lparr>lastSessionLogs := []\<rparr>) = (Inr response, r')"
      using h(4) by (cases "sendMessage b (r\<lparr>lastSessionLogs := []\<rparr>)") simp
    have "outputDir r' = outputDir r"
      using sendMessage_keeps_config[of b "r\<lparr>lastSessionLogs := []\<rparr>"] r' by simp
    then show ?thesis
      using h(1-3,5) r'
      by (simp add: AuditRunner_runAudit_def Let_def b' getFindingsFromProject_def saveResults_def)
  qed
  have s8: "failedProjects (checkpoint (fst (runBenchmark ExtendedScheduler [p] (s, w, r))))
              = failedProjects (checkpoint s) @ [name p]
            \<and> completedProjects (checkpoint (fst (runBenchmark ExtendedScheduler [p] (s, w, r))))
              = completedProjects (checkpoint s)
            \<and> emitted (fst (runBenchmark ExtendedScheduler [p] (s, w, r)))
              = emitted s @ [ProjectStarted (name p) (isoNow w),
                             ErrorEvent (''Failed to ensure container: '' @ decimal c @ '' '' @ t)
                               (Some (name p)),
                             CheckpointSaved
                               (checkpoint (fst (runBenchmark ExtendedScheduler [p] (s, w, r))))]
            \<and> files (fst (snd (runBenchmark ExtendedScheduler [p] (s, w, r)))) = files w"
    if "\<not> shouldStop s" "name p \<notin> set (completedProjects (checkpoint s))"
      "groundTruths w p = Inr g" "createProject_response b = HttpOk i"
      "ensureContainer_response b = HttpError c st t"
    for s g i c st t
  proof -
    let ?msg = "''Failed to ensure container: '' @ decimal c @ '' '' @ t"
    have au: "fst (AuditRunner_runAudit p (w, r)) = Inl ?msg"
      using s2[OF that(4,5)] .
    then have fi: "files (fst (snd (AuditRunner_runAudit p (w, r)))) = files w"
      using s6 by blast
    have br: "fst (BenchmarkRunner_runAudit p (w, r)) = Inl ?msg"
      "files (fst (snd (BenchmarkRunner_runAudit p (w, r)))) = files w"
      using au fi that(3)
      by (auto simp: BenchmarkRunner_runAudit_def split: prod.splits sum.splits)
    have ra: "fst (runAudit ExtendedScheduler p (snd (s, w, r))) = Inl ?msg"
      "files (fst (snd (runAudit ExtendedScheduler p (snd (s, w, r))))) = files w"
      "clock ExtendedScheduler (snd (s, w, r)) = isoNow w"
      using br by (simp_all add: ExtendedScheduler_def)
    have eq: "runBenchmark ExtendedScheduler [p] (s, w, r) = runProject ExtendedScheduler p (s, w, r)"
      using that(1,2) by simp
    show ?thesis
      unfolding eq
      using ra emitted_runProject_failure[OF ra(1)]
        world_runProject[of ExtendedScheduler p "(s, w, r)"]
      by (simp add: failed_runProject completed_runProject)
  qed
  show ?thesis
    apply (intro conjI allI impI)
    subgoal using s1 by blast
    subgoal using s2 by blast
    subgoal using s3 by blast
    subgoal using s4 by blast
    subgoal using s5 by blast
    subgoal using s6 by blast
    subgoal using s7 by blast
    subgoal using s7 by blast
    subgoal using s8 by blast
    subgoal using s8 by blast
    subgoal using s8 by blast
    subgoal using s8 by blast
    done
qed

text \<open>
  The theorem at a backend whose container readiness call answers HTTP 500, under a
  scheduler fresh from its constructor.
\<close>

theorem http_failure_aborts_the_audit_witness:
  "containerDownBackend = backends (worldWith containerDownBackend)
       (audits_started (worldWith containerDownBackend)) demoProject
   \<and> createProject_response containerDownBackend = HttpOk ''proj-1''
   \<and> ensureContainer_response containerDownBackend
       = HttpError 500 ''Internal Server Error'' ''docker unavailable''
   \<and> fst (AuditRunner_runAudit demoProject (worldWith containerDownBackend, newAuditRunner))
       = Inl ''Failed to ensure container: 500 docker unavailable''
   \<and> failedProjects (checkpoint (fst (runBenchmark ExtendedScheduler [demoProject]
         (newScheduler ''2024-01-01T00:00:00.000Z'', worldWith containerDownBackend, newAuditRunner))))
       = [''demo-proj'']
   \<and> completedProjects (checkpoint (fst (runBenchmark ExtendedScheduler [demoProject]
         (newScheduler ''2024-01-01T00:00:00.000Z'', worldWith containerDownBackend, newAuditRunner))))
       = []
   \<and> files (fst (snd (runBenchmark ExtendedScheduler [demoProject]
         (newScheduler ''2024-01-01T00:00:00.000Z'', worldWith containerDownBackend, newAuditRunner))))
       = []"
proof -
  let ?w = "worldWith containerDownBackend"
  let ?s = "newScheduler ''2024-01-01T00:00:00.000Z''"
  let ?run = "runBenchmark ExtendedScheduler [demoProject] (?s, ?w, newAuditRunner)"
  have b: "containerDownBackend = backends ?w (audits_started ?w) demoProject"
    by (simp add: worldWith_def)
  have cp: "createProject_response containerDownBackend = HttpOk ''proj-1''"
    and ec: "ensureContainer_response containerDownBackend
       = HttpError 500 ''Internal Server Error'' ''docker unavailable''"
    by (simp_all add: containerDownBackend_def healthyBackend_def)
  have d: "decimal 500 = ''500''"
    by (simp add: decimal.simps digit_def char_of_eq_iff)
  have n: "name demoProject = ''demo-proj''"
    by (simp add: demoProject_def)
  have st: "\<not> shouldStop ?s" "completedProjects (checkpoint ?s) = []"
    "failedProjects (checkpoint ?s) = []"
    by (simp_all add: newScheduler_def createInitialCheckpoint_def)
  have gt: "groundTruths ?w demoProject
              = Inr [groundTruthFinding ''H-01'' High, groundTruthFinding ''M-01'' Medium]"
    and fw: "files ?w = []"
    by (simp_all add: worldWith_def)
  note T = http_failure_aborts_the_audit[OF b, of newAuditRunner]
  have "fst (AuditRunner_runAudit demoProject (?w, newAuditRunner))
          = Inl (''Failed to ensure container: '' @ decimal 500 @ '' '' @ ''docker unavailable'')"
    by (rule T[THEN conjunct2, THEN conjunct1, rule_format, OF conjI[OF cp ec]])
  then have A: "fst (AuditRunner_runAudit demoProject (?w, newAuditRunner))
          = Inl ''Failed to ensure container: 500 docker unavailable''"
    unfolding d by simp
  have pre: "\<not> shouldStop ?s \<and> name demoProject \<notin> set (completedProjects (checkpoint ?s))
      \<and> groundTruths ?w demoProject
          = Inr [groundTruthFinding ''H-01'' High, groundTruthFinding ''M-01'' Medium]
      \<and> createProject_response containerDownBackend = HttpOk ''proj-1''
      \<and> ensureContainer_response containerDownBackend
          = HttpError 500 ''Internal Server Error'' ''docker unavailable''"
    using st gt cp ec by simp
  note S = T[THEN conjunct2, THEN conjunct2, THEN conjunct2, THEN conjunct2,
             THEN conjunct2, THEN conjunct2, THEN conjunct2, rule_format, OF pre]
  have F: "failedProjects (checkpoint (fst ?run)) = failedProjects (checkpoint ?s) @ [name demoProject]"
    by (rule S[THEN conjunct1])
  have C: "completedProjects (checkpoint (fst ?run)) = completedProjects (checkpoint ?s)"
    by (rule S[THEN conjunct2, THEN conjunct1])
  have W: "files (fst (snd ?run)) = files ?w"
    by (rule S[THEN conjunct2, THEN conjunct2, THEN conjunct2])
  have F': "failedProjects (checkpoint (fst ?run)) = [''demo-proj'']"
    unfolding F st n by (simp only: append.simps)
  have C': "completedProjects (checkpoint (fst ?run)) = []"
    unfolding C st ..
  have W': "files (fst (snd ?run)) = []"
    unfolding W fw ..
  show ?thesis
    using b cp ec A F' C' W' by blast
qed

text \<open>
  As the specification states it, the property fails at the finding retrieval: when that call answers HTTP 500
  nothing is thrown, \<open>runAudit\<close> returns the empty list and writes it to the findings
  file, and the scheduler records the project as completed.
\<close>

theorem failed_retrieval_counterexample:
  "findings_response findingsDownBackend
       = HttpError 500 ''Internal Server Error'' ''db unavailable''
   \<and> fst (AuditRunner_runAudit demoProject (worldWith findingsDownBackend, newAuditRunner)) = Inr []
   \<and> files (fst (snd (AuditRunner_runAudit demoProject (worldWith findingsDownBackend, newAuditRunner))))
       = [([''data'', ''runs'', ''demo-proj'', ''findings-2024-01-01T00-00-00-000Z.json''],
           FindingsJson [])]
   \<and> completedProjects (checkpoint (fst (runBenchmark ExtendedScheduler [demoProject]
         (newScheduler ''2024-01-01T00:00:00.000Z'', worldWith findingsDownBackend, newAuditRunner))))
       = [''demo-proj'']
   \<and> failedProjects (checkpoint (fst (runBenchmark ExtendedScheduler [demoProject]
         (newScheduler ''2024-01-01T00:00:00.000Z'', worldWith findingsDownBackend, newAuditRunner))))
       = []"
proof -
  let ?w = "worldWith findingsDownBackend"
  let ?s = "newScheduler ''2024-01-01T00:00:00.000Z''"
  have fr: "findings_response findingsDownBackend
       = HttpError 500 ''Internal Server Error'' ''db unavailable''"
    by (simp add: findingsDownBackend_def)
  have sm: "sendMessage findingsDownBackend (newAuditRunner\<lparr>lastSessionLogs := []\<rparr>)
      = (Inr ''Ran slither: 1 issue'',
         newAuditRunner\<lparr>lastSessionLogs := [userMessage, agentMessage ''Ran slither: 1 issue'']\<rparr>)"
    by (simp add: sendMessage_def fullResponse_def polling_eval backend_examples
        findingsDownBackend_def newAuditRunner_def)
  have ra: "AuditRunner_runAudit demoProject (?w, newAuditRunner)
      = (Inr [],
         ?w\<lparr>audits_started := 1,
             files := [([''data'', ''runs'', ''demo-proj'', ''findings-2024-01-01T00-00-00-000Z.json''],
                        FindingsJson [])]\<rparr>,
         newAuditRunner\<lparr>lastSessionLogs := [userMessage, agentMessage ''Ran slither: 1 issue'']\<rparr>)"
  proof -
    have ok: "createProject_response findingsDownBackend = HttpOk ''proj-1''"
      "ensureContainer_response findingsDownBackend
         = HttpOk \<lparr> containerId = ''c-1'', wasCreated = True, wasRestarted = False \<rparr>"
      "createSession_response findingsDownBackend = HttpOk ''sess-1''"
      by (simp_all add: findingsDownBackend_def healthyBackend_def)
    have od: "outputDir newAuditRunner = ''data''"
      by (simp add: newAuditRunner_def)
    show ?thesis
      by (simp add: AuditRunner_runAudit_def Let_def worldWith_def sm ok fr od
          getFindingsFromProject_def saveResults_def fileStamp_def demoProject_def)
  qed
  have br: "fst (BenchmarkRunner_runAudit demoProject (?w, newAuditRunner))
      = Inr (buildRunResult ''2024-01-01T00:00:00.000Z'' None demoProject
               [groundTruthFinding ''H-01'' High, groundTruthFinding ''M-01'' Medium] [] 42)"
  proof -
    have wf: "groundTruths ?w demoProject
                = Inr [groundTruthFinding ''H-01'' High, groundTruthFinding ''M-01'' Medium]"
      "isoNow ?w = ''2024-01-01T00:00:00.000Z''" "env_DD_VERSION ?w = None"
      "seconds_taken ?w demoProject = 42"
      by (simp_all add: worldWith_def)
    show ?thesis
      by (simp add: BenchmarkRunner_runAudit_def ra wf Let_def)
  qed
  have st: "\<not> shouldStop ?s" "completedProjects (checkpoint ?s) = []"
    "failedProjects (checkpoint ?s) = []"
    by (simp_all add: newScheduler_def createInitialCheckpoint_def)
  have n: "name demoProject = ''demo-proj''"
    by (simp add: demoProject_def)
  have eq: "runBenchmark ExtendedScheduler [demoProject] (?s, ?w, newAuditRunner)
      = runProject ExtendedScheduler demoProject (?s, ?w, newAuditRunner)"
    using st by simp
  have rr: "fst (runAudit ExtendedScheduler demoProject (snd (?s, ?w, newAuditRunner)))
      = Inr (buildRunResult ''2024-01-01T00:00:00.000Z'' None demoProject
               [groundTruthFinding ''H-01'' High, groundTruthFinding ''M-01'' Medium] [] 42)"
    using br by (simp add: ExtendedScheduler_def)
  have C: "completedProjects (checkpoint (fst (runBenchmark ExtendedScheduler [demoProject]
         (?s, ?w, newAuditRunner)))) = [''demo-proj'']"
    unfolding eq completed_runProject rr using st n by simp
  have F: "failedProjects (checkpoint (fst (runBenchmark ExtendedScheduler [demoProject]
         (?s, ?w, newAuditRunner)))) = []"
    unfolding eq failed_runProject rr using st by simp
  show ?thesis
    using fr C F unfolding ra by simp
qed

end
